theory Spec2Isabelle
  imports Main "HOL-Library.Sublist"
begin

text \<open>
  The migration runner of node-pg-migrate. From \<^verbatim>\<open>src/migration.ts\<close>: the class
  \<^verbatim>\<open>MigrationBuilder\<close>, which accumulates the statements of one migration, the class
  \<^verbatim>\<open>Migration\<close>, which applies one direction of a migration, and \<^verbatim>\<open>escapeValue\<close>. From
  \<^verbatim>\<open>src/operations/schemas.ts\<close>: the runner (the default export), which selects and
  applies the pending migrations. The database connection, the file system and the
  operations that build the DDL text are parameters.
\<close>

section \<open>Errors, events and the executor\<close>

text \<open>
  A thrown JavaScript \<^verbatim>\<open>Error\<close> is a value. \<open>Error msg\<close> is \<^verbatim>\<open>new Error(msg)\<close>;
  \<open>ErrorWithStack prefix cause\<close> is \<^verbatim>\<open>new Error(`${prefix}${cause.stack}`)\<close>, whose text
  embeds the stack of the error it wraps.
\<close>

datatype error = Error string | ErrorWithStack string error

text \<open>
  Everything the runner does to the outside world is recorded, in order, in a trace:
  calls of the database connection (\<^verbatim>\<open>db.createConnection\<close>, \<^verbatim>\<open>db.query\<close>,
  \<^verbatim>\<open>db.select\<close>, \<^verbatim>\<open>db.column\<close>, \<^verbatim>\<open>db.close\<close>), calls of the logger, and the
  start of the directory read of \<^verbatim>\<open>loadMigrationFiles\<close>.
\<close>

datatype event =
    Connect
  | Query string
  | Select string
  | Column string string
  | Log string
  | ReadDir
  | Close

type_synonym trace = "event list"

text \<open>A row of a result set is a JavaScript object: column names with their values.\<close>

type_synonym row = "(string \<times> string) list"

text \<open>
  A computation of the runner takes the trace so far and returns either the error it
  threw or its value, with the trace extended by what it did. The trace survives a throw.
\<close>

type_synonym 'r io = "trace \<Rightarrow> (error + 'r) \<times> trace"

definition ret :: "'r \<Rightarrow> 'r io" where
  "ret x = (\<lambda>t. (Inr x, t))"

definition throw :: "error \<Rightarrow> 'r io" where
  "throw e = (\<lambda>t. (Inl e, t))"

definition emit :: "event \<Rightarrow> unit io" where
  "emit ev = (\<lambda>t. (Inr (), t @ [ev]))"

definition bind :: "'r io \<Rightarrow> ('r \<Rightarrow> 's io) \<Rightarrow> 's io" where
  "bind m f = (\<lambda>t. case m t of (Inl e, t') \<Rightarrow> (Inl e, t') | (Inr x, t') \<Rightarrow> f x t')"

definition try_catch :: "'r io \<Rightarrow> (error \<Rightarrow> 'r io) \<Rightarrow> 'r io" where
  "try_catch m h = (\<lambda>t. case m t of (Inl e, t') \<Rightarrow> h e t' | (Inr x, t') \<Rightarrow> (Inr x, t'))"

definition lift :: "error + 'r \<Rightarrow> 'r io" where
  "lift r = (\<lambda>t. (r, t))"

section \<open>Operations and the migration builder\<close>

text \<open>
  An operation returns \<^verbatim>\<open>string | string[]\<close> and may throw; it may carry a
  \<^verbatim>\<open>reverse\<close> function. The operations themselves are parameters of the model; \<open>'a\<close> is
  the type of their argument lists.
\<close>

datatype sql_result = One string | Many "string list"

record 'a operation =
  op_name :: string
  forward :: "'a \<Rightarrow> error + sql_result"
  reverse :: "('a \<Rightarrow> error + sql_result) option"

text \<open>\<^verbatim>\<open>steps.concat(x)\<close>: an array argument is spread, any other value is appended.\<close>

fun concat_steps :: "string list \<Rightarrow> sql_result \<Rightarrow> string list" where
  "concat_steps ss (One s) = ss @ [s]"
| "concat_steps ss (Many xs) = ss @ xs"

record MigrationBuilder =
  steps :: "string list"
  REVERSE_MODE :: bool
  use_transaction :: bool

definition new_MigrationBuilder :: MigrationBuilder where
  "new_MigrationBuilder = \<lparr>steps = [], REVERSE_MODE = False, use_transaction = True\<rparr>"

text \<open>
  \<^verbatim>\<open>wrap(operation)(...args)\<close>. The result is the error thrown, if any, and the builder
  after the call.
\<close>

definition wrap :: "'a operation \<Rightarrow> 'a \<Rightarrow> MigrationBuilder \<Rightarrow> error option \<times> MigrationBuilder" where
  "wrap operation args pgm =
     (case (if REVERSE_MODE pgm then
              (case reverse operation of
                 None \<Rightarrow>
                   Inl (Error (''Impossible to automatically infer down migration for \"''
                               @ (''pgm.'' @ op_name operation @ ''()'') @ ''\"''))
               | Some operation_reverse \<Rightarrow> operation_reverse args)
            else forward operation args) of
        Inl e \<Rightarrow> (Some e, pgm)
      | Inr r \<Rightarrow> (None, pgm\<lparr>steps := concat_steps (steps pgm) r\<rparr>))"

definition enableReverseMode :: "MigrationBuilder \<Rightarrow> MigrationBuilder" where
  "enableReverseMode pgm = pgm\<lparr>REVERSE_MODE := True\<rparr>"

definition noTransaction :: "MigrationBuilder \<Rightarrow> MigrationBuilder" where
  "noTransaction pgm = pgm\<lparr>use_transaction := False\<rparr>"

definition isUsingTransaction :: "MigrationBuilder \<Rightarrow> bool" where
  "isUsingTransaction pgm = use_transaction pgm"

definition getSqlSteps :: "MigrationBuilder \<Rightarrow> string list" where
  "getSqlSteps pgm = (if REVERSE_MODE pgm then rev (steps pgm) else steps pgm)"

fun join :: "string \<Rightarrow> string list \<Rightarrow> string" where
  "join sep [] = []"
| "join sep [x] = x"
| "join sep (x # y # ys) = x @ sep @ join sep (y # ys)"

definition getSql :: "MigrationBuilder \<Rightarrow> string" where
  "getSql pgm = join [CHR 0x0A] (getSqlSteps pgm) @ [CHR 0x0A]"

section \<open>The executor and the runner's options\<close>

datatype direction = Up | Down

text \<open>\<^verbatim>\<open>options.count\<close> is a JavaScript number; the command line passes \<^verbatim>\<open>Infinity\<close> for "all".\<close>

datatype number = Num int | PosInfinity | NegInfinity

datatype schema_option = NoSchema | Schema string | Schemas "string list"

record RunnerOption =
  opt_direction :: direction
  opt_count :: "number option"
  opt_file :: "string option"
  opt_timestamp :: bool
  opt_checkOrder :: bool
  opt_noLock :: bool
  opt_singleTransaction :: bool
  opt_dryRun :: bool
  opt_fake :: bool
  opt_schema :: schema_option
  opt_createSchema :: bool
  opt_createMigrationsSchema :: bool
  opt_migrationsSchema :: "string option"
  opt_migrationsTable :: string
  opt_decamelize :: bool

text \<open>
  The database connection is an external collaborator. Its answers are parameters: each
  reply may depend on everything done so far (the trace) and on the statement.
  \<open>decamelize_fn\<close> is the \<^verbatim>\<open>decamelize\<close> package.
\<close>

record executor =
  createConnection_reply :: "error option"
  query_reply :: "trace \<Rightarrow> string \<Rightarrow> error option"
  select_reply :: "trace \<Rightarrow> string \<Rightarrow> error + row list"
  column_reply :: "trace \<Rightarrow> string \<Rightarrow> string \<Rightarrow> error + string list"
  decamelize_fn :: "string \<Rightarrow> string"

definition db_createConnection :: "executor \<Rightarrow> unit io" where
  "db_createConnection db = (\<lambda>t.
     (case createConnection_reply db of Some e \<Rightarrow> Inl e | None \<Rightarrow> Inr (), t @ [Connect]))"

definition db_query :: "executor \<Rightarrow> string \<Rightarrow> unit io" where
  "db_query db sql = (\<lambda>t.
     (case query_reply db t sql of Some e \<Rightarrow> Inl e | None \<Rightarrow> Inr (), t @ [Query sql]))"

definition db_select :: "executor \<Rightarrow> string \<Rightarrow> (row list) io" where
  "db_select db sql = (\<lambda>t. (select_reply db t sql, t @ [Select sql]))"

definition db_column :: "executor \<Rightarrow> string \<Rightarrow> string \<Rightarrow> (string list) io" where
  "db_column db col sql = (\<lambda>t. (column_reply db t col sql, t @ [Column col sql]))"

definition getSchemas :: "schema_option \<Rightarrow> string list" where
  "getSchemas schema =
     (let schemas = filter (\<lambda>s. length s > 0)
                      (case schema of NoSchema \<Rightarrow> [] | Schema s \<Rightarrow> [s] | Schemas ss \<Rightarrow> ss)
      in if length schemas > 0 then schemas else [''public''])"

definition getMigrationTableSchema :: "RunnerOption \<Rightarrow> string" where
  "getMigrationTableSchema options =
     (case opt_migrationsSchema options of
        Some s \<Rightarrow> s
      | None \<Rightarrow> (case getSchemas (opt_schema options) of s # _ \<Rightarrow> s | [] \<Rightarrow> ''undefined''))"

section \<open>The migration record\<close>

text \<open>
  What a migration body does with its builder: call a wrapped operation, call
  \<^verbatim>\<open>pgm.noTransaction()\<close>, or use the side channel \<^verbatim>\<open>pgm.db.query\<close> /
  \<^verbatim>\<open>pgm.db.select\<close>. A body is the sequence of these calls; it stops at the first
  call that throws. Both calling conventions of an action (callback and promise) are
  covered once the action has settled.
\<close>

datatype 'a pgm_call =
    Operation "'a operation" 'a
  | NoTransaction
  | DbQuery string
  | DbSelect string

text \<open>
  A function value has an identity: \<^verbatim>\<open>===\<close> on functions compares references, not
  bodies. \<open>fn_ref\<close> is that reference.
\<close>

record 'a action =
  fn_ref :: nat
  body :: "'a pgm_call list"

text \<open>An exported direction is \<^verbatim>\<open>undefined\<close>, \<^verbatim>\<open>false\<close> or a function.\<close>

datatype 'a export = Undefined | Disabled | Fn "'a action"

fun strict_equal :: "'a export \<Rightarrow> 'a export \<Rightarrow> bool" where
  "strict_equal Undefined Undefined = True"
| "strict_equal Disabled Disabled = True"
| "strict_equal (Fn f) (Fn g) = (fn_ref f = fn_ref g)"
| "strict_equal _ _ = False"

record 'a Migration =
  path :: string
  name :: string
  timestamp :: int
  up :: "'a export"
  down :: "'a export"

text \<open>\<^verbatim>\<open>wrapDB\<close>: the side channel throws in reverse mode.\<close>

definition wrapDB :: "MigrationBuilder \<Rightarrow> 'r io \<Rightarrow> 'r io" where
  "wrapDB pgm operation =
     (if REVERSE_MODE pgm
      then throw (Error ''Impossible to automatically infer down migration'')
      else operation)"

fun run_call ::
  "executor \<Rightarrow> 'a pgm_call \<Rightarrow> MigrationBuilder \<Rightarrow> trace \<Rightarrow> (error option \<times> MigrationBuilder) \<times> trace"
where
  "run_call db (Operation operation args) pgm t = (wrap operation args pgm, t)"
| "run_call db NoTransaction pgm t = ((None, noTransaction pgm), t)"
| "run_call db (DbQuery sql) pgm t =
     (case wrapDB pgm (db_query db sql) t of
        (Inl e, t') \<Rightarrow> ((Some e, pgm), t')
      | (Inr _, t') \<Rightarrow> ((None, pgm), t'))"
| "run_call db (DbSelect sql) pgm t =
     (case wrapDB pgm (db_select db sql) t of
        (Inl e, t') \<Rightarrow> ((Some e, pgm), t')
      | (Inr _, t') \<Rightarrow> ((None, pgm), t'))"

fun run_body ::
  "executor \<Rightarrow> 'a pgm_call list \<Rightarrow> MigrationBuilder \<Rightarrow> trace \<Rightarrow> (error option \<times> MigrationBuilder) \<times> trace"
where
  "run_body db [] pgm t = ((None, pgm), t)"
| "run_body db (c # cs) pgm t =
     (case run_call db c pgm t of
        ((Some e, pgm'), t') \<Rightarrow> ((Some e, pgm'), t')
      | ((None, pgm'), t') \<Rightarrow> run_body db cs pgm' t')"

text \<open>\<^verbatim>\<open>_getMarkAsRun(action)\<close>: the switch tests \<^verbatim>\<open>this.down\<close> first, then \<^verbatim>\<open>this.up\<close>.\<close>

definition getMarkAsRun :: "RunnerOption \<Rightarrow> 'a Migration \<Rightarrow> 'a action \<Rightarrow> string io" where
  "getMarkAsRun options m action =
     (let schema = getMigrationTableSchema options;
          migrationsTable = opt_migrationsTable options
      in if strict_equal (Fn action) (down m) then
           bind (emit (Log (''### MIGRATION '' @ name m @ '' (DOWN) ###''))) (\<lambda>_.
             ret (''DELETE FROM \"'' @ schema @ ''\".\"'' @ migrationsTable
                  @ ''\" WHERE name='' @ [CHR 0x27] @ name m @ [CHR 0x27] @ '';''))
         else if strict_equal (Fn action) (up m) then
           bind (emit (Log (''### MIGRATION '' @ name m @ '' (UP) ###''))) (\<lambda>_.
             ret (''INSERT INTO \"'' @ schema @ ''\".\"'' @ migrationsTable
                  @ ''\" (name, run_on) VALUES ('' @ [CHR 0x27] @ name m @ [CHR 0x27]
                  @ '', NOW());''))
         else throw (Error ''Unknown direction''))"

text \<open>
  Lines 142 to 153 of \<^verbatim>\<open>_apply\<close>: reconciling the migration's transaction flag with the
  run's transaction mode. The result is the warnings logged and the statement list.
\<close>

definition reconcile_transaction ::
  "RunnerOption \<Rightarrow> MigrationBuilder \<Rightarrow> string list \<Rightarrow> string list \<times> string list" where
  "reconcile_transaction options pgm sqlSteps =
     (if \<not> opt_singleTransaction options \<and> isUsingTransaction pgm then
        ([], ''BEGIN;'' # (sqlSteps @ [''COMMIT;'']))
      else if opt_singleTransaction options \<and> \<not> isUsingTransaction pgm then
        ([''#> WARNING: Need to break single transaction! <''],
         ''COMMIT;'' # (sqlSteps @ [''BEGIN;'']))
      else if \<not> opt_singleTransaction options \<or> \<not> isUsingTransaction pgm then
        ([''#> WARNING: This migration is not wrapped in a transaction! <''], sqlSteps)
      else ([], sqlSteps))"

text \<open>The final \<^verbatim>\<open>reduce\<close> of \<^verbatim>\<open>_apply\<close>: one statement after the other, none in a dry run.\<close>

fun run_steps :: "executor \<Rightarrow> RunnerOption \<Rightarrow> string list \<Rightarrow> unit io" where
  "run_steps db options [] = ret ()"
| "run_steps db options (sql # rest) =
     bind (if opt_dryRun options then ret () else db_query db sql)
          (\<lambda>_. run_steps db options rest)"

fun log_all :: "string list \<Rightarrow> unit io" where
  "log_all [] = ret ()"
| "log_all (l # ls) = bind (emit (Log l)) (\<lambda>_. log_all ls)"

text \<open>\<^verbatim>\<open>_apply(action, pgm)\<close>.\<close>

definition apply_action ::
  "executor \<Rightarrow> RunnerOption \<Rightarrow> 'a Migration \<Rightarrow> 'a action \<Rightarrow> MigrationBuilder \<Rightarrow> unit io" where
  "apply_action db options m action pgm = (\<lambda>t.
     case run_body db (body action) pgm t of
       ((Some e, _), t1) \<Rightarrow> (Inl e, t1)
     | ((None, pgm1), t1) \<Rightarrow>
         bind (getMarkAsRun options m action) (\<lambda>mark.
           case reconcile_transaction options pgm1 (getSqlSteps pgm1 @ [mark]) of
             (warnings, sqlSteps) \<Rightarrow>
               bind (log_all warnings) (\<lambda>_.
               bind (emit (Log (join [CHR 0x0A] sqlSteps @ [CHR 0x0A, CHR 0x0A]))) (\<lambda>_.
               run_steps db options sqlSteps))) t1)"

text \<open>
  \<^verbatim>\<open>_getAction(direction)\<close>. It may assign \<^verbatim>\<open>this.down = this.up\<close>, so the migration
  is returned with the action.
\<close>

definition direction_name :: "direction \<Rightarrow> string" where
  "direction_name d = (case d of Up \<Rightarrow> ''up'' | Down \<Rightarrow> ''down'')"

definition getAction :: "'a Migration \<Rightarrow> direction \<Rightarrow> error + ('a action \<times> 'a Migration)" where
  "getAction m d =
     (let m1 = (if d = Down \<and> strict_equal (down m) Undefined then m\<lparr>down := up m\<rparr> else m)
      in case (case d of Up \<Rightarrow> up m1 | Down \<Rightarrow> down m1) of
           Disabled \<Rightarrow>
             Inl (Error (''User has disabled '' @ direction_name d @ '' migration on file: ''
                         @ name m1))
         | Undefined \<Rightarrow>
             Inl (Error (''Unknown value for direction: '' @ direction_name d
                         @ ''. Is the migration '' @ name m1 @ '' exporting a ''
                         @ [CHR 0x27] @ direction_name d @ [CHR 0x27] @ '' function?''))
         | Fn action \<Rightarrow> Inr (action, m1))"

text \<open>\<^verbatim>\<open>apply(direction)\<close>.\<close>

definition apply_migration :: "executor \<Rightarrow> RunnerOption \<Rightarrow> 'a Migration \<Rightarrow> direction \<Rightarrow> unit io" where
  "apply_migration db options m d =
     (let pgm = new_MigrationBuilder
      in case getAction m d of
           Inl e \<Rightarrow> throw e
         | Inr (action, m1) \<Rightarrow>
             apply_action db options m1 action
               (if strict_equal (down m1) (up m1) then enableReverseMode pgm else pgm))"

text \<open>\<^verbatim>\<open>markAsRun(direction)\<close>.\<close>

definition markAsRun :: "executor \<Rightarrow> RunnerOption \<Rightarrow> 'a Migration \<Rightarrow> direction \<Rightarrow> unit io" where
  "markAsRun db options m d =
     (case getAction m d of
        Inl e \<Rightarrow> throw e
      | Inr (action, m1) \<Rightarrow> bind (getMarkAsRun options m1 action) (db_query db))"

section \<open>The runner\<close>

text \<open>
  \<^verbatim>\<open>createSchemalize(shouldDecamelize, shouldQuote)\<close>. The \<^verbatim>\<open>reduce\<close> over the two
  transformations composes them as \<^verbatim>\<open>decamelize(quote(x))\<close> when both are requested.
\<close>

datatype Name = Unqualified string | Qualified "string option" string

definition quote :: "string \<Rightarrow> string" where
  "quote str = ''\"'' @ str @ ''\"''"

definition createSchemalize :: "(string \<Rightarrow> string) \<Rightarrow> bool \<Rightarrow> bool \<Rightarrow> Name \<Rightarrow> string" where
  "createSchemalize decamelize shouldDecamelize shouldQuote v =
     (let transform =
            (if shouldDecamelize then (if shouldQuote then (\<lambda>x. decamelize (quote x)) else decamelize)
             else (if shouldQuote then quote else (\<lambda>x. x)))
      in case v of
           Qualified schema n \<Rightarrow>
             (case schema of
                Some sc \<Rightarrow> (if sc \<noteq> [] then transform sc @ ''.'' else [])
              | None \<Rightarrow> []) @ transform n
         | Unqualified n \<Rightarrow> transform n)"

definition fullTableName :: "executor \<Rightarrow> RunnerOption \<Rightarrow> string" where
  "fullTableName db options =
     createSchemalize (decamelize_fn db) (opt_decamelize options) True
       (Qualified (Some (getMigrationTableSchema options)) (opt_migrationsTable options))"

definition PG_MIGRATE_LOCK_ID :: string where
  "PG_MIGRATE_LOCK_ID = ''7241865325823964''"

definition lock_sql :: string where
  "lock_sql = ''select pg_try_advisory_lock('' @ PG_MIGRATE_LOCK_ID @ '') as \"lockObtained\"''"

text \<open>
  \<^verbatim>\<open>lock\<close>: \<^verbatim>\<open>const [lockObtained] = await db.select(...)\<close> takes the first row of the
  result; a row is an object, so it is falsy only when there is none.
\<close>

definition lock :: "executor \<Rightarrow> unit io" where
  "lock db =
     bind (db_select db lock_sql) (\<lambda>rows.
       case rows of
         [] \<Rightarrow> throw (Error ''Another migration is already running'')
       | lockObtained # _ \<Rightarrow> ret ())"

text \<open>The statements of \<^verbatim>\<open>ensureMigrationsTable\<close> and \<^verbatim>\<open>getRunMigrations\<close>.\<close>

definition table_exists_sql :: "RunnerOption \<Rightarrow> string" where
  "table_exists_sql options =
     ''SELECT table_name FROM information_schema.tables WHERE table_schema = ''
     @ [CHR 0x27] @ getMigrationTableSchema options @ [CHR 0x27] @ '' AND table_name = ''
     @ [CHR 0x27] @ opt_migrationsTable options @ [CHR 0x27]"

definition primary_key_sql :: "RunnerOption \<Rightarrow> string" where
  "primary_key_sql options =
     ''SELECT constraint_name FROM information_schema.table_constraints WHERE table_schema = ''
     @ [CHR 0x27] @ getMigrationTableSchema options @ [CHR 0x27] @ '' AND table_name = ''
     @ [CHR 0x27] @ opt_migrationsTable options @ [CHR 0x27]
     @ '' AND constraint_type = '' @ [CHR 0x27] @ ''PRIMARY KEY'' @ [CHR 0x27]"

definition add_primary_key_sql :: "executor \<Rightarrow> RunnerOption \<Rightarrow> string" where
  "add_primary_key_sql db options =
     ''ALTER TABLE '' @ fullTableName db options @ '' ADD PRIMARY KEY (id)''"

definition create_table_sql :: "executor \<Rightarrow> RunnerOption \<Rightarrow> string" where
  "create_table_sql db options =
     ''CREATE TABLE '' @ fullTableName db options
     @ '' ( id SERIAL PRIMARY KEY, name varchar(255) NOT NULL, run_on timestamp NOT NULL)''"

definition history_sql :: "executor \<Rightarrow> RunnerOption \<Rightarrow> string" where
  "history_sql db options =
     ''SELECT name FROM '' @ fullTableName db options @ '' ORDER BY run_on, id''"

definition ensureMigrationsTable :: "executor \<Rightarrow> RunnerOption \<Rightarrow> unit io" where
  "ensureMigrationsTable db options =
     try_catch
       (bind (db_select db (table_exists_sql options)) (\<lambda>migrationTables.
          if length migrationTables = 1 then
            bind (db_select db (primary_key_sql options)) (\<lambda>primaryKeyConstraints.
              if length primaryKeyConstraints \<noteq> 1 then
                db_query db (add_primary_key_sql db options)
              else ret ())
          else db_query db (create_table_sql db options)))
       (\<lambda>err. throw (ErrorWithStack ''Unable to ensure migrations table: '' err))"

definition getRunMigrations :: "executor \<Rightarrow> RunnerOption \<Rightarrow> (string list) io" where
  "getRunMigrations db options = db_column db ''name'' (history_sql db options)"

text \<open>
  \<^verbatim>\<open>loadMigrations\<close>. Reading the directory, applying the ignore pattern, requiring each
  file and deriving its name and timestamp belong to \<^verbatim>\<open>fs\<close>, \<^verbatim>\<open>path\<close> and the module
  loader; their combined outcome is the parameter \<open>load_reply\<close>. Any error inside is
  rethrown as "Can't get migration files". When both promises of the runner's
  \<^verbatim>\<open>Promise.all\<close> reject, \<open>load_rejects_first\<close> says which rejection came first.
\<close>

record 'a loader =
  load_reply :: "error + 'a Migration list"
  load_rejects_first :: bool

definition loadMigrations :: "'a loader \<Rightarrow> ('a Migration list) io" where
  "loadMigrations fs = (\<lambda>t.
     (case load_reply fs of
        Inl err \<Rightarrow> Inl (ErrorWithStack ''Can't get migration files: '' err)
      | Inr migrations \<Rightarrow> Inr migrations,
      t @ [ReadDir]))"

text \<open>
  \<^verbatim>\<open>Promise.all([loadMigrations(...), getRunMigrations(...)])\<close>: both calls are made, in
  this order, before either result is awaited.
\<close>

definition load_and_history ::
  "executor \<Rightarrow> 'a loader \<Rightarrow> RunnerOption \<Rightarrow> ('a Migration list \<times> string list) io" where
  "load_and_history db fs options = (\<lambda>t.
     case loadMigrations fs t of (r1, t1) \<Rightarrow>
     case getRunMigrations db options t1 of (r2, t2) \<Rightarrow>
       (case r1 of
          Inr migrations \<Rightarrow>
            (case r2 of Inr runNames \<Rightarrow> Inr (migrations, runNames) | Inl e2 \<Rightarrow> Inl e2)
        | Inl e1 \<Rightarrow>
            (case r2 of Inr _ \<Rightarrow> Inl e1
                      | Inl e2 \<Rightarrow> Inl (if load_rejects_first fs then e1 else e2)),
        t2))"

subsection \<open>Numbers and \<^verbatim>\<open>Array.prototype.slice\<close>\<close>

fun Math_abs :: "number \<Rightarrow> number" where
  "Math_abs (Num i) = Num \<bar>i\<bar>"
| "Math_abs PosInfinity = PosInfinity"
| "Math_abs NegInfinity = PosInfinity"

fun negate :: "number \<Rightarrow> number" where
  "negate (Num i) = Num (- i)"
| "negate PosInfinity = NegInfinity"
| "negate NegInfinity = PosInfinity"

text \<open>A relative index of \<^verbatim>\<open>slice\<close>: negative counts from the end, then clamped.\<close>

fun relative_index :: "nat \<Rightarrow> number \<Rightarrow> nat" where
  "relative_index len (Num i) =
     (if i < 0 then nat (max (int len + i) 0) else nat (min i (int len)))"
| "relative_index len NegInfinity = 0"
| "relative_index len PosInfinity = len"

definition slice :: "number \<Rightarrow> number option \<Rightarrow> 'b list \<Rightarrow> 'b list" where
  "slice start end xs =
     (let len = length xs;
          k = relative_index len start;
          final = (case end of None \<Rightarrow> len | Some e \<Rightarrow> relative_index len e)
      in take (final - k) (drop k xs))"

text \<open>\<^verbatim>\<open>timestamp >= count\<close> and \<^verbatim>\<open>timestamp <= count\<close>; false when \<^verbatim>\<open>count\<close> is undefined.\<close>

fun greater_equal :: "int \<Rightarrow> number option \<Rightarrow> bool" where
  "greater_equal ts None = False"
| "greater_equal ts (Some (Num c)) = (ts \<ge> c)"
| "greater_equal ts (Some PosInfinity) = False"
| "greater_equal ts (Some NegInfinity) = True"

fun less_equal :: "int \<Rightarrow> number option \<Rightarrow> bool" where
  "less_equal ts None = False"
| "less_equal ts (Some (Num c)) = (ts \<le> c)"
| "less_equal ts (Some PosInfinity) = True"
| "less_equal ts (Some NegInfinity) = False"

subsection \<open>Selecting the migrations to run\<close>

text \<open>\<^verbatim>\<open>!options.file || options.file === n\<close>: an empty file name is falsy.\<close>

definition file_matches :: "RunnerOption \<Rightarrow> string \<Rightarrow> bool" where
  "file_matches options n =
     (case opt_file options of None \<Rightarrow> True | Some f \<Rightarrow> f = [] \<or> f = n)"

text \<open>
  \<^verbatim>\<open>migrations.find(({ name }) => name === migrationName) || migrationName\<close>: the record
  (\<open>Inr\<close>), or the bare name (\<open>Inl\<close>) when no file carries it.
\<close>

definition resolve :: "'a Migration list \<Rightarrow> string \<Rightarrow> string + 'a Migration" where
  "resolve migrations migrationName =
     (case find (\<lambda>m. name m = migrationName) migrations of
        Some m \<Rightarrow> Inr m
      | None \<Rightarrow> Inl migrationName)"

fun names_only :: "(string + 'a Migration) list \<Rightarrow> string list" where
  "names_only [] = []"
| "names_only (Inl n # xs) = n # names_only xs"
| "names_only (Inr m # xs) = names_only xs"

fun records_only :: "(string + 'a Migration) list \<Rightarrow> 'a Migration list" where
  "records_only [] = []"
| "records_only (Inl n # xs) = records_only xs"
| "records_only (Inr m # xs) = m # records_only xs"

definition getMigrationsToRun ::
  "RunnerOption \<Rightarrow> string list \<Rightarrow> 'a Migration list \<Rightarrow> error + 'a Migration list" where
  "getMigrationsToRun options runNames migrations =
     (if opt_direction options = Down then
        let downMigrations = map (resolve migrations) (filter (file_matches options) runNames);
            toRun = rev
              (if opt_timestamp options then
                 filter (\<lambda>migration. case migration of
                            Inr m \<Rightarrow> greater_equal (timestamp m) (opt_count options)
                          | Inl _ \<Rightarrow> False) downMigrations
               else
                 slice (negate (Math_abs (case opt_count options of None \<Rightarrow> Num 1 | Some c \<Rightarrow> c)))
                   None downMigrations);
            deletedMigrations = names_only toRun
        in if length deletedMigrations \<noteq> 0 then
             Inl (Error (''Definitions of migrations '' @ join '', '' deletedMigrations
                         @ '' have been deleted.''))
           else Inr (records_only toRun)
      else
        let upMigrations =
              filter (\<lambda>m. name m \<notin> set runNames \<and> file_matches options (name m)) migrations
        in Inr (if opt_timestamp options then
                  filter (\<lambda>m. less_equal (timestamp m) (opt_count options)) upMigrations
                else
                  slice (Num 0)
                    (Some (Math_abs (case opt_count options of None \<Rightarrow> PosInfinity | Some c \<Rightarrow> c)))
                    upMigrations))"

text \<open>\<^verbatim>\<open>checkOrder\<close>: the \<^verbatim>\<open>for\<close> loop over \<open>i\<close>, and the function around it.\<close>

function checkOrder_loop :: "string list \<Rightarrow> 'a Migration list \<Rightarrow> nat \<Rightarrow> nat \<Rightarrow> error option" where
  "checkOrder_loop runNames migrations len i =
     (if i < len then
        (let runName = runNames ! i;
             migrationName = name (migrations ! i)
         in if runName \<noteq> migrationName then
              Some (Error (''Not run migration '' @ migrationName
                           @ '' is preceding already run migration '' @ runName))
            else checkOrder_loop runNames migrations len (i + 1))
      else None)"
  by pat_completeness auto
termination
  by (relation "measure (\<lambda>(runNames, migrations, len, i). len - i)") auto

definition checkOrder :: "string list \<Rightarrow> 'a Migration list \<Rightarrow> error option" where
  "checkOrder runNames migrations =
     checkOrder_loop runNames migrations (min (length runNames) (length migrations)) 0"

datatype run_method = MarkAsRun | Apply

fun runMigrations ::
  "executor \<Rightarrow> RunnerOption \<Rightarrow> 'a Migration list \<Rightarrow> run_method \<Rightarrow> direction \<Rightarrow> unit io" where
  "runMigrations db options [] how d = ret ()"
| "runMigrations db options (m # rest) how d =
     bind (case how of
             MarkAsRun \<Rightarrow> markAsRun db options m d
           | Apply \<Rightarrow> apply_migration db options m d)
          (\<lambda>_. runMigrations db options rest how d)"

text \<open>
  \<^verbatim>\<open>Promise.all(schemas.map(schema => db.query(...)))\<close>: every query is issued; the
  first failure, in list order, is the one reported.
\<close>

fun query_all :: "executor \<Rightarrow> string list \<Rightarrow> unit io" where
  "query_all db [] = ret ()"
| "query_all db (sql # rest) = (\<lambda>t.
     case db_query db sql t of (r, t1) \<Rightarrow>
     case query_all db rest t1 of (r', t2) \<Rightarrow>
       ((case r of Inl e \<Rightarrow> Inl e | Inr _ \<Rightarrow> r'), t2))"

definition schema_given :: "schema_option \<Rightarrow> bool" where
  "schema_given schema = (case schema of NoSchema \<Rightarrow> False | Schema s \<Rightarrow> s \<noteq> [] | Schemas _ \<Rightarrow> True)"

text \<open>The runner from \<^verbatim>\<open>db.createConnection()\<close> to the lock (lines 178 to 194).\<close>

definition create_schema_sql :: "string \<Rightarrow> string" where
  "create_schema_sql schema = ''CREATE SCHEMA IF NOT EXISTS \"'' @ schema @ ''\"''"

definition search_path_sql :: "string list \<Rightarrow> string" where
  "search_path_sql schemas =
     ''SET search_path TO '' @ join '', '' (map (\<lambda>s. ''\"'' @ s @ ''\"'') schemas)"

definition create_schemas :: "executor \<Rightarrow> RunnerOption \<Rightarrow> unit io" where
  "create_schemas db options =
     (if schema_given (opt_schema options) then
        (let schemas = getSchemas (opt_schema options)
         in bind (if opt_createSchema options then
                    query_all db (map create_schema_sql schemas)
                  else ret ()) (\<lambda>_.
            db_query db (search_path_sql schemas)))
      else ret ())"

definition create_migrations_schema :: "executor \<Rightarrow> RunnerOption \<Rightarrow> unit io" where
  "create_migrations_schema db options =
     (case opt_migrationsSchema options of
        Some ms \<Rightarrow>
          (if ms \<noteq> [] \<and> opt_createMigrationsSchema options then
             db_query db (create_schema_sql ms)
           else ret ())
      | None \<Rightarrow> ret ())"

definition connect_and_lock :: "executor \<Rightarrow> RunnerOption \<Rightarrow> unit io" where
  "connect_and_lock db options =
     bind (db_createConnection db) (\<lambda>_.
     bind (create_schemas db options) (\<lambda>_.
     bind (create_migrations_schema db options) (\<lambda>_.
     bind (ensureMigrationsTable db options) (\<lambda>_.
     if \<not> opt_noLock options then lock db else ret ()))))"

text \<open>Lines 178 to 196: the above, then the \<^verbatim>\<open>Promise.all\<close>.\<close>

definition prepare ::
  "executor \<Rightarrow> 'a loader \<Rightarrow> RunnerOption \<Rightarrow> ('a Migration list \<times> string list) io" where
  "prepare db fs options =
     bind (connect_and_lock db options) (\<lambda>_. load_and_history db fs options)"

text \<open>Lines 178 to 202: the above, then the order check and the selection.\<close>

definition select_migrations ::
  "executor \<Rightarrow> 'a loader \<Rightarrow> RunnerOption \<Rightarrow> ('a Migration list) io" where
  "select_migrations db fs options =
     bind (prepare db fs options) (\<lambda>(migrations, runNames).
     bind (if opt_checkOrder options then
             (case checkOrder runNames migrations of
                Some e \<Rightarrow> throw e
              | None \<Rightarrow> ret ())
           else ret ()) (\<lambda>_.
     lift (getMigrationsToRun options runNames migrations)))"

text \<open>Lines 215 to 229: marking, one global transaction, or one transaction per migration.\<close>

definition apply_batch :: "executor \<Rightarrow> RunnerOption \<Rightarrow> 'a Migration list \<Rightarrow> unit io" where
  "apply_batch db options toRun =
     (if opt_fake options then
        runMigrations db options toRun MarkAsRun (opt_direction options)
      else if opt_singleTransaction options then
        bind (db_query db ''BEGIN'') (\<lambda>_.
          try_catch
            (bind (runMigrations db options toRun Apply (opt_direction options)) (\<lambda>_.
               db_query db ''COMMIT''))
            (\<lambda>err.
               bind (emit (Log ''> Rolling back attempted migration ...'')) (\<lambda>_.
               bind (db_query db ''ROLLBACK'') (\<lambda>_.
               throw err))))
      else runMigrations db options toRun Apply (opt_direction options))"

text \<open>Lines 204 to 235: what the runner does with the selected migrations.\<close>

definition run_selected ::
  "executor \<Rightarrow> RunnerOption \<Rightarrow> 'a Migration list \<Rightarrow> ((string \<times> string \<times> int) list) io" where
  "run_selected db options toRun =
     (if length toRun = 0 then
        bind (emit (Log ''No migrations to run!'')) (\<lambda>_. ret [])
      else
        bind (emit (Log ''> Migrating files:'')) (\<lambda>_.
        bind (log_all (map (\<lambda>m. ''> - '' @ name m) toRun)) (\<lambda>_.
        bind (apply_batch db options toRun) (\<lambda>_.
        ret (map (\<lambda>m. (path m, name m, timestamp m)) toRun)))))"

text \<open>The runner (the default export); \<^verbatim>\<open>db.close()\<close> is in its \<^verbatim>\<open>finally\<close>.\<close>

definition runner ::
  "executor \<Rightarrow> 'a loader \<Rightarrow> RunnerOption \<Rightarrow> (error + (string \<times> string \<times> int) list) \<times> trace" where
  "runner db fs options =
     (case bind (select_migrations db fs options) (run_selected db options) []
      of (r, t) \<Rightarrow> (r, t @ [Close]))"

section \<open>Escaping values\<close>

text \<open>The decimal text of a loop index, as the template literal renders it.\<close>

fun decimal :: "nat \<Rightarrow> string" where
  "decimal n =
     (if n < 10 then [''0123456789'' ! n]
      else decimal (n div 10) @ [''0123456789'' ! (n mod 10)])"

text \<open>\<^verbatim>\<open>String.prototype.indexOf\<close>: the first position of the pattern, or \<open>-1\<close>.\<close>

fun index_of :: "string \<Rightarrow> string \<Rightarrow> int \<Rightarrow> int" where
  "index_of [] pat i = (if pat = [] then i else - 1)"
| "index_of (c # cs) pat i = (if prefix pat (c # cs) then i else index_of cs pat (i + 1))"

definition indexOf :: "string \<Rightarrow> string \<Rightarrow> int" where
  "indexOf s pat = index_of s pat 0"

definition dollar_tag :: "nat \<Rightarrow> string" where
  "dollar_tag index = ''$pg'' @ decimal index @ ''$''"

text \<open>The \<^verbatim>\<open>do ... while\<close> loop of \<^verbatim>\<open>escapeValue\<close>; it returns \<^verbatim>\<open>dollars\<close>.\<close>

function escape_loop :: "string \<Rightarrow> nat \<Rightarrow> string" where
  "escape_loop val index =
     (let index1 = index + 1;
          dollars = dollar_tag index1
      in if indexOf val dollars \<ge> 0 then escape_loop val index1 else dollars)"
  by pat_completeness auto
termination
proof (relation "measure (\<lambda>(val, index). 10 ^ length val - index)")
  show "wf (measure (\<lambda>(val, index). 10 ^ length val - index))"
    by simp
next
  fix val :: string and index index1 :: nat and dollars :: string
  assume i1: "index1 = index + 1"
     and d: "dollars = dollar_tag index1"
     and found: "0 \<le> indexOf val dollars"
  have len: "n < 10 ^ length (decimal n)" for n
  proof (induction n rule: decimal.induct)
    case (1 n)
    show ?case
    proof (cases "n < 10")
      case True
      then show ?thesis by simp
    next
      case False
      with 1 have "n div 10 < 10 ^ length (decimal (n div 10))" by simp
      then have "n < 10 * 10 ^ length (decimal (n div 10))" by linarith
      with False show ?thesis
        by (subst decimal.simps) simp
    qed
  qed
  have idx: "0 \<le> index_of s pat i \<Longrightarrow> 0 \<le> i \<Longrightarrow> length pat \<le> length s" for s pat i
  proof (induction s arbitrary: i)
    case Nil
    then show ?case by (simp split: if_splits)
  next
    case (Cons c cs)
    show ?case
    proof (cases "prefix pat (c # cs)")
      case True
      then show ?thesis by (rule prefix_length_le)
    next
      case False
      with Cons.prems have "0 \<le> index_of cs pat (i + 1)" by simp
      with Cons.IH[of "i + 1"] Cons.prems(2) show ?thesis by simp
    qed
  qed
  from found have "length dollars \<le> length val"
    unfolding indexOf_def by (rule idx) simp
  with d have "length (decimal index1) < length val" by (simp add: dollar_tag_def)
  then have "(10::nat) ^ length (decimal index1) \<le> 10 ^ length val"
    by (intro power_increasing) simp_all
  with len[of index1] have "index1 < 10 ^ length val" by linarith
  with i1 show "((val, index1), (val, index)) \<in> measure (\<lambda>(val, index). 10 ^ length val - index)"
    by simp
qed

text \<open>\<^verbatim>\<open>str.replace(/ARRAY/g, '')\<close>, for any non-empty literal pattern.\<close>

function remove_all :: "string \<Rightarrow> string \<Rightarrow> string" where
  "remove_all pat [] = []"
| "remove_all pat (c # cs) =
     (if pat \<noteq> [] \<and> prefix pat (c # cs) then remove_all pat (drop (length pat) (c # cs))
      else c # remove_all pat cs)"
  by pat_completeness auto
termination
  by (relation "measure (\<lambda>(pat, s). length s)") (auto simp: Suc_le_eq)

text \<open>
  A \<^verbatim>\<open>Value\<close>: \<^verbatim>\<open>null\<close>, a boolean, a string, a number, an array of values, a
  \<^verbatim>\<open>PgLiteral\<close> (with its \<^verbatim>\<open>value\<close>), or any other object. Numbers are a parameter
  \<open>'n\<close>, with their \<^verbatim>\<open>toString\<close>. The result is \<^verbatim>\<open>string | number\<close>.
\<close>

datatype 'n Value =
    VNull
  | VBoolean bool
  | VString string
  | VNumber 'n
  | VArray "'n Value list"
  | VPgLiteral string
  | VObject

datatype 'n escaped = Text string | Numeric 'n

fun to_text :: "('n \<Rightarrow> string) \<Rightarrow> 'n escaped \<Rightarrow> string" where
  "to_text num (Text s) = s"
| "to_text num (Numeric n) = num n"

fun escapeValue :: "('n \<Rightarrow> string) \<Rightarrow> 'n Value \<Rightarrow> 'n escaped" where
  "escapeValue num VNull = Text ''NULL''"
| "escapeValue num (VBoolean b) = Text (if b then ''true'' else ''false'')"
| "escapeValue num (VString val) =
     (let dollars = escape_loop val 0 in Text (dollars @ val @ dollars))"
| "escapeValue num (VNumber n) = Numeric n"
| "escapeValue num (VArray val) =
     (let arrayStr = remove_all ''ARRAY''
                       (join '','' (map (\<lambda>v. to_text num (escapeValue num v)) val))
      in Text (''ARRAY['' @ arrayStr @ '']''))"
| "escapeValue num (VPgLiteral v) = Text v"
| "escapeValue num VObject = Text []"

section \<open>Operations of the source\<close>

text \<open>
  Three operations as the builder wraps them. \<open>op_name\<close> is the \<^verbatim>\<open>name\<close> property of the
  function that the operation builder returns: the name of the constant it was bound to
  (\<^verbatim>\<open>_drop\<close>, \<^verbatim>\<open>_create\<close>), and the empty string for the anonymous function that
  \<^verbatim>\<open>sql(mOptions)\<close> returns.

  \<^verbatim>\<open>sql\<close> of \<^verbatim>\<open>operations/other\<close>: the parameter \<open>t\<close> is the transformer
  \<^verbatim>\<open>createTransformer(mOptions.literal)\<close> applied to the arguments. A trailing \<open>;\<close> is
  added when \<^verbatim>\<open>s.lastIndexOf(';') !== s.length - 1\<close>.
\<close>

definition other_sql :: "('a \<Rightarrow> string) \<Rightarrow> 'a operation" where
  "other_sql t =
     \<lparr>op_name = [],
      forward = (\<lambda>args. let s = t args
                        in Inr (One (if s \<noteq> [] \<and> last s \<noteq> CHR '';'' then s @ '';'' else s))),
      reverse = None\<rparr>"

text \<open>
  \<^verbatim>\<open>dropExtension\<close> and \<^verbatim>\<open>createExtension\<close>. The first argument is a name or an array
  of names; the second is the options object, whose absent properties are falsy. The
  parameter \<open>literal\<close> is \<^verbatim>\<open>mOptions.literal\<close>. Both return an array, one statement per
  extension.
\<close>

datatype js_names = Single string | Several "string list"

record extension_options =
  opt_ifExists :: bool
  opt_cascade :: bool
  opt_ifNotExists :: bool
  opt_extension_schema :: "string option"

definition as_array :: "js_names \<Rightarrow> string list" where
  "as_array extensions = (case extensions of Single e \<Rightarrow> [e] | Several es \<Rightarrow> es)"

definition dropExtension :: "(string \<Rightarrow> string) \<Rightarrow> (js_names \<times> extension_options) operation" where
  "dropExtension literal =
     \<lparr>op_name = ''_drop'',
      forward = (\<lambda>(extensions, options).
        let ifExistsStr = (if opt_ifExists options then '' IF EXISTS'' else []);
            cascadeStr = (if opt_cascade options then '' CASCADE'' else [])
        in Inr (Many (map (\<lambda>extension. ''DROP EXTENSION'' @ ifExistsStr @ '' ''
                                         @ literal extension @ cascadeStr @ '';'')
                        (as_array extensions)))),
      reverse = None\<rparr>"

definition createExtension :: "(string \<Rightarrow> string) \<Rightarrow> (js_names \<times> extension_options) operation" where
  "createExtension literal =
     \<lparr>op_name = ''_create'',
      forward = (\<lambda>(extensions, options).
        let ifNotExistsStr = (if opt_ifNotExists options then '' IF NOT EXISTS'' else []);
            schemaStr = (case opt_extension_schema options of
                           Some s \<Rightarrow> (if s \<noteq> [] then '' SCHEMA '' @ literal s else [])
                         | None \<Rightarrow> [])
        in Inr (Many (map (\<lambda>extension. ''CREATE EXTENSION'' @ ifNotExistsStr @ '' ''
                                         @ literal extension @ schemaStr @ '';'')
                        (as_array extensions)))),
      reverse = Some (forward (dropExtension literal))\<rparr>"

section \<open>Notions used in the statements\<close>

text \<open>A call of the body is reversible when its operation has a reverse that returns.\<close>

fun reversible :: "'a pgm_call \<Rightarrow> bool" where
  "reversible (Operation operation args) =
     (case reverse operation of
        Some operation_reverse \<Rightarrow> (case operation_reverse args of Inr _ \<Rightarrow> True | Inl _ \<Rightarrow> False)
      | None \<Rightarrow> False)"
| "reversible _ = False"

text \<open>The statements of a result: the string itself, or the elements of the array.\<close>

fun statements :: "sql_result \<Rightarrow> string list" where
  "statements (One s) = [s]"
| "statements (Many xs) = xs"

text \<open>The statements that the reverse of a call returns.\<close>

fun reverse_sql :: "'a pgm_call \<Rightarrow> string list" where
  "reverse_sql (Operation operation args) =
     (case reverse operation of
        Some operation_reverse \<Rightarrow>
          (case operation_reverse args of Inr r \<Rightarrow> statements r | Inl _ \<Rightarrow> [])
      | None \<Rightarrow> [])"
| "reverse_sql _ = []"

text \<open>
  What a successful run of the runner has done before it loads the migration files, in
  order: the schema statements, the statement for the migrations schema, the statements of
  \<^verbatim>\<open>ensureMigrationsTable\<close> (which depend on the replies to its two lookups), and the
  lock query.
\<close>

definition schema_events :: "RunnerOption \<Rightarrow> trace" where
  "schema_events options =
     (if schema_given (opt_schema options) then
        (if opt_createSchema options
         then map (\<lambda>s. Query (create_schema_sql s)) (getSchemas (opt_schema options))
         else [])
        @ [Query (search_path_sql (getSchemas (opt_schema options)))]
      else [])"

definition migrations_schema_events :: "RunnerOption \<Rightarrow> trace" where
  "migrations_schema_events options =
     (case opt_migrationsSchema options of
        Some ms \<Rightarrow>
          (if ms \<noteq> [] \<and> opt_createMigrationsSchema options
           then [Query (create_schema_sql ms)] else [])
      | None \<Rightarrow> [])"

definition table_events :: "executor \<Rightarrow> RunnerOption \<Rightarrow> trace \<Rightarrow> trace" where
  "table_events db options t =
     Select (table_exists_sql options)
     # (case select_reply db t (table_exists_sql options) of
          Inl _ \<Rightarrow> []
        | Inr migrationTables \<Rightarrow>
            (if length migrationTables = 1 then
               Select (primary_key_sql options)
               # (case select_reply db (t @ [Select (table_exists_sql options)])
                         (primary_key_sql options) of
                    Inl _ \<Rightarrow> []
                  | Inr primaryKeyConstraints \<Rightarrow>
                      (if length primaryKeyConstraints \<noteq> 1
                       then [Query (add_primary_key_sql db options)] else []))
             else [Query (create_table_sql db options)]))"

definition setup_events :: "executor \<Rightarrow> RunnerOption \<Rightarrow> trace" where
  "setup_events db options =
     (let t3 = [Connect] @ schema_events options @ migrations_schema_events options;
          t4 = t3 @ table_events db options t3
      in if \<not> opt_noLock options then t4 @ [Select lock_sql] else t4)"

text \<open>Whether a body calls \<^verbatim>\<open>pgm.noTransaction()\<close>.\<close>

fun calls_noTransaction :: "'a pgm_call list \<Rightarrow> bool" where
  "calls_noTransaction [] = False"
| "calls_noTransaction (NoTransaction # cs) = True"
| "calls_noTransaction (_ # cs) = calls_noTransaction cs"

text \<open>
  A computation issues the events \<open>es\<close> from the trace \<open>t\<close>: what it adds to the trace
  is an initial part of \<open>es\<close>, and all of \<open>es\<close> when it returns.
\<close>

definition issues :: "'r io \<Rightarrow> trace \<Rightarrow> trace \<Rightarrow> bool" where
  "issues m t es =
     (prefix (snd (m t)) (t @ es) \<and> prefix t (snd (m t))
      \<and> (\<forall>x. fst (m t) = Inr x \<longrightarrow> snd (m t) = t @ es))"

text \<open>The two forms of the mark-as-run statement of \<^verbatim>\<open>_getMarkAsRun\<close>.\<close>

definition delete_statement :: "RunnerOption \<Rightarrow> string \<Rightarrow> string" where
  "delete_statement options n =
     ''DELETE FROM \"'' @ getMigrationTableSchema options @ ''\".\"''
     @ opt_migrationsTable options @ ''\" WHERE name='' @ [CHR 0x27] @ n @ [CHR 0x27] @ '';''"

definition insert_statement :: "RunnerOption \<Rightarrow> string \<Rightarrow> string" where
  "insert_statement options n =
     ''INSERT INTO \"'' @ getMigrationTableSchema options @ ''\".\"''
     @ opt_migrationsTable options @ ''\" (name, run_on) VALUES ('' @ [CHR 0x27] @ n
     @ [CHR 0x27] @ '', NOW());''"

text \<open>The text that \<^verbatim>\<open>_apply\<close> logs for a statement list.\<close>

definition sql_log :: "string list \<Rightarrow> event" where
  "sql_log sqlSteps = Log (join [CHR 0x0A] sqlSteps @ [CHR 0x0A, CHR 0x0A])"

text \<open>The lines that the runner logs before it applies the selected migrations.\<close>

definition announce :: "'a Migration list \<Rightarrow> trace" where
  "announce toRun = Log ''> Migrating files:'' # map (\<lambda>m. Log (''> - '' @ name m)) toRun"

section \<open>Example inputs\<close>

text \<open>
  An executor that accepts every statement, reports no history table yet, grants the lock
  and returns the given history; and one that rejects one given statement.
\<close>

definition example_db :: "string list \<Rightarrow> executor" where
  "example_db history =
     \<lparr>createConnection_reply = None,
      query_reply = (\<lambda>t sql. None),
      select_reply = (\<lambda>t sql. if sql = lock_sql then Inr [[(''lockObtained'', ''true'')]] else Inr []),
      column_reply = (\<lambda>t col sql. Inr history),
      decamelize_fn = (\<lambda>s. s)\<rparr>"

definition example_db_rejecting :: "string list \<Rightarrow> string \<Rightarrow> executor" where
  "example_db_rejecting history bad =
     (example_db history)
       \<lparr>query_reply := (\<lambda>t sql. if sql = bad then Some (Error ''syntax error'') else None)\<rparr>"

definition example_options :: RunnerOption where
  "example_options =
     \<lparr>opt_direction = Up, opt_count = None, opt_file = None, opt_timestamp = False,
      opt_checkOrder = True, opt_noLock = False, opt_singleTransaction = False,
      opt_dryRun = False, opt_fake = False, opt_schema = NoSchema, opt_createSchema = False,
      opt_createMigrationsSchema = False, opt_migrationsSchema = None,
      opt_migrationsTable = ''pgmigrations'', opt_decamelize = False\<rparr>"

text \<open>
  Operations in the shape of \<^verbatim>\<open>createTable\<close> and \<^verbatim>\<open>addColumns\<close>, whose inner functions
  are named \<^verbatim>\<open>_create\<close> and \<^verbatim>\<open>_add\<close>, and \<^verbatim>\<open>pgm.sql\<close> with a transformer that
  substitutes nothing.
\<close>

definition example_createTable :: "string operation" where
  "example_createTable =
     \<lparr>op_name = ''_create'',
      forward = (\<lambda>a. Inr (One (''CREATE TABLE '' @ a @ '';''))),
      reverse = Some (\<lambda>a. Inr (One (''DROP TABLE '' @ a @ '';'')))\<rparr>"

definition example_addColumn :: "string operation" where
  "example_addColumn =
     \<lparr>op_name = ''_add'',
      forward = (\<lambda>a. Inr (One (''ALTER TABLE '' @ a @ '' ADD c text;''))),
      reverse = Some (\<lambda>a. Inr (One (''ALTER TABLE '' @ a @ '' DROP c;'')))\<rparr>"

definition example_sql :: "string operation" where
  "example_sql = other_sql (\<lambda>s. s)"

definition example_up :: "string action" where
  "example_up =
     \<lparr>fn_ref = 1,
      body = [Operation example_createTable ''t1'', Operation example_addColumn ''t1'']\<rparr>"

definition example_up_only :: "string Migration" where
  "example_up_only =
     \<lparr>path = ''migrations/1_a.js'', name = ''1_a'', timestamp = 1,
      up = Fn example_up, down = Undefined\<rparr>"

definition example_same :: "string Migration" where
  "example_same =
     \<lparr>path = ''migrations/1_a.js'', name = ''1_a'', timestamp = 1,
      up = Fn example_up, down = Fn example_up\<rparr>"

definition example_no_transaction :: "string action" where
  "example_no_transaction =
     \<lparr>fn_ref = 2, body = [NoTransaction, Operation example_sql ''VACUUM'']\<rparr>"

definition example_plain :: "string action" where
  "example_plain = \<lparr>fn_ref = 3, body = [Operation example_sql ''SELECT 1'']\<rparr>"

definition example_migration :: "string \<Rightarrow> int \<Rightarrow> nat \<Rightarrow> string \<Rightarrow> string Migration" where
  "example_migration n ts ref tbl =
     \<lparr>path = ''migrations/'' @ n @ ''.js'', name = n, timestamp = ts,
      up = Fn \<lparr>fn_ref = ref, body = [Operation example_createTable tbl]\<rparr>,
      down = Undefined\<rparr>"

definition example_A :: "string Migration" where
  "example_A = example_migration ''1_a'' 1 11 ''ta''"

definition example_B :: "string Migration" where
  "example_B = example_migration ''2_b'' 2 12 ''tb''"

definition example_C :: "string Migration" where
  "example_C = example_migration ''3_c'' 3 13 ''tc''"

definition example_loader :: "'a Migration list \<Rightarrow> 'a loader" where
  "example_loader ms = \<lparr>load_reply = Inr ms, load_rejects_first = True\<rparr>"

definition example_missing_directory :: "'a loader" where
  "example_missing_directory =
     \<lparr>load_reply = Inl (Error ''ENOENT: no such file or directory, scandir'')
      , load_rejects_first = True\<rparr>"

definition example_D :: "string Migration" where
  "example_D =
     \<lparr>path = ''migrations/4_d.js'', name = ''4_d'', timestamp = 4,
      up = Fn example_plain, down = Disabled\<rparr>"

definition example_E :: "string Migration" where
  "example_E =
     \<lparr>path = ''migrations/5_e.js'', name = ''5_e'', timestamp = 5,
      up = Fn example_no_transaction, down = Disabled\<rparr>"

definition example_options_single :: RunnerOption where
  "example_options_single = example_options\<lparr>opt_singleTransaction := True\<rparr>"

definition example_setup_trace :: "executor \<Rightarrow> RunnerOption \<Rightarrow> trace" where
  "example_setup_trace db options =
     [Connect, Select (table_exists_sql options), Query (create_table_sql db options),
      Select lock_sql, ReadDir, Column ''name'' (history_sql db options)]"

definition example_options_down :: RunnerOption where
  "example_options_down = example_options\<lparr>opt_direction := Down\<rparr>"

text \<open>
  A migration that exports only \<open>up\<close> and creates three extensions in two calls, the
  first with an array of two names.
\<close>

definition no_extension_options :: extension_options where
  "no_extension_options =
     \<lparr>opt_ifExists = False, opt_cascade = False, opt_ifNotExists = False,
      opt_extension_schema = None\<rparr>"

definition example_extensions_up :: "(js_names \<times> extension_options) action" where
  "example_extensions_up =
     \<lparr>fn_ref = 4,
      body = [Operation (createExtension quote) (Several [''a'', ''b''], no_extension_options),
              Operation (createExtension quote) (Single ''c'', no_extension_options)]\<rparr>"

definition example_F :: "(js_names \<times> extension_options) Migration" where
  "example_F =
     \<lparr>path = ''migrations/6_f.js'', name = ''6_f'', timestamp = 6,
      up = Fn example_extensions_up, down = Undefined\<rparr>"

definition example_options_schema :: RunnerOption where
  "example_options_schema =
     example_options\<lparr>opt_schema := Schema ''app'', opt_createSchema := True\<rparr>"

definition example_options_fake :: RunnerOption where
  "example_options_fake = example_options\<lparr>opt_singleTransaction := True, opt_fake := True\<rparr>"

text \<open>
  An executor like the first, with no history, whose reply to the lock query is one row
  saying that the lock was not obtained.
\<close>

definition example_db_lock_held :: executor where
  "example_db_lock_held =
     (example_db [])
       \<lparr>select_reply :=
          (\<lambda>t sql. if sql = lock_sql then Inr [[(''lockObtained'', ''false'')]] else Inr [])\<rparr>"

lemmas io_defs = ret_def throw_def emit_def bind_def try_catch_def lift_def
  db_createConnection_def db_query_def db_select_def db_column_def

lemmas example_defs = example_db_def example_db_rejecting_def example_options_def
  example_createTable_def example_addColumn_def example_sql_def example_up_def
  example_up_only_def example_same_def example_no_transaction_def example_plain_def
  example_migration_def example_A_def example_B_def example_C_def example_D_def
  example_E_def example_loader_def example_missing_directory_def

section \<open>Facts about the builder and the migration record\<close>

lemma concat_steps_statements: "concat_steps ss r = ss @ statements r"
  by (cases r) simp_all

lemma wrap_reversible:
  assumes "REVERSE_MODE pgm" and "reversible (Operation operation args)"
  shows "wrap operation args pgm =
           (None, pgm\<lparr>steps := steps pgm @ reverse_sql (Operation operation args)\<rparr>)"
  using assms
  by (auto simp: wrap_def concat_steps_statements split: option.splits sum.splits)

lemma run_body_reversible:
  "REVERSE_MODE pgm \<Longrightarrow> list_all reversible cs \<Longrightarrow>
   run_body db cs pgm t = ((None, pgm\<lparr>steps := steps pgm @ concat (map reverse_sql cs)\<rparr>), t)"
proof (induction cs arbitrary: pgm)
  case Nil
  then show ?case by simp
next
  case (Cons c cs)
  then obtain operation args where c: "c = Operation operation args"
    by (cases c) simp_all
  from Cons.prems c have w: "wrap operation args pgm =
      (None, pgm\<lparr>steps := steps pgm @ reverse_sql c\<rparr>)"
    by (simp add: wrap_reversible)
  have "REVERSE_MODE (pgm\<lparr>steps := steps pgm @ reverse_sql c\<rparr>)"
    using Cons.prems by simp
  from Cons.IH[OF this] Cons.prems(2) w c show ?case
    by simp
qed

lemma getMarkAsRun_down:
  "strict_equal (Fn action) (down m) \<Longrightarrow>
   getMarkAsRun options m action t =
     (Inr (delete_statement options (name m)),
      t @ [Log (''### MIGRATION '' @ name m @ '' (DOWN) ###'')])"
  by (simp add: getMarkAsRun_def delete_statement_def bind_def emit_def ret_def Let_def)

lemma getMarkAsRun_up:
  "\<not> strict_equal (Fn action) (down m) \<Longrightarrow> strict_equal (Fn action) (up m) \<Longrightarrow>
   getMarkAsRun options m action t =
     (Inr (insert_statement options (name m)),
      t @ [Log (''### MIGRATION '' @ name m @ '' (UP) ###'')])"
  by (simp add: getMarkAsRun_def insert_statement_def bind_def emit_def ret_def Let_def)

lemma log_all_trace: "log_all ls t = (Inr (), t @ map Log ls)"
  by (induction ls arbitrary: t) (simp_all add: ret_def bind_def emit_def)

lemma apply_action_statements:
  assumes "run_body db (body action) pgm t = ((None, pgm1), t1)"
      and "getMarkAsRun options m action t1 = (Inr mark, t2)"
      and "reconcile_transaction options pgm1 (getSqlSteps pgm1 @ [mark]) = (warnings, sqlSteps)"
  shows "apply_action db options m action pgm t =
           run_steps db options sqlSteps (t2 @ map Log warnings @ [sql_log sqlSteps])"
  using assms by (simp add: apply_action_def bind_def log_all_trace emit_def sql_log_def)

lemma run_steps_accepting:
  "\<not> opt_dryRun options \<Longrightarrow> run_steps (example_db h) options ss t = (Inr (), t @ map Query ss)"
  by (induction ss arbitrary: t) (simp_all add: io_defs example_db_def)

lemma example_options_fields:
  "opt_schema example_options = NoSchema"
  "opt_migrationsSchema example_options = None"
  "\<not> opt_noLock example_options"
  "opt_checkOrder example_options"
  "\<not> opt_fake example_options"
  "\<not> opt_dryRun example_options"
  "\<not> opt_singleTransaction example_options"
  "\<not> opt_timestamp example_options"
  "opt_direction example_options = Up"
  "opt_count example_options = None"
  "opt_file example_options = None"
  by (simp_all add: example_options_def)

lemma example_options_single_fields:
  "opt_schema example_options_single = NoSchema"
  "opt_migrationsSchema example_options_single = None"
  "\<not> opt_noLock example_options_single"
  "opt_checkOrder example_options_single"
  "\<not> opt_fake example_options_single"
  "\<not> opt_dryRun example_options_single"
  "opt_singleTransaction example_options_single"
  "\<not> opt_timestamp example_options_single"
  "opt_direction example_options_single = Up"
  "opt_count example_options_single = None"
  "opt_file example_options_single = None"
  by (simp_all add: example_options_single_def example_options_def)

text \<open>
  Applying direction down to a migration that exports only \<open>up\<close> and whose calls are
  all reversible: the statements handed to the executor.
\<close>

lemma apply_down_up_only:
  assumes "down m = Undefined" and "up m = Fn a" and "list_all reversible (body a)"
  shows "apply_migration db options m Down t =
           (let undo = rev (concat (map reverse_sql (body a)));
                mark = delete_statement options (name m);
                sqlSteps = (if opt_singleTransaction options then undo @ [mark]
                            else ''BEGIN;'' # undo @ [mark, ''COMMIT;''])
            in run_steps db options sqlSteps
                 (t @ [Log (''### MIGRATION '' @ name m @ '' (DOWN) ###''), sql_log sqlSteps]))"
proof -
  let ?m1 = "m\<lparr>down := up m\<rparr>"
  let ?pgm = "enableReverseMode new_MigrationBuilder"
  let ?undo = "rev (concat (map reverse_sql (body a)))"
  let ?pgm1 = "?pgm\<lparr>steps := steps ?pgm @ concat (map reverse_sql (body a))\<rparr>"
  let ?mark = "delete_statement options (name m)"
  let ?sqlSteps = "if opt_singleTransaction options then ?undo @ [?mark]
                   else ''BEGIN;'' # ?undo @ [?mark, ''COMMIT;'']"
  have ga: "getAction m Down = Inr (a, ?m1)"
    using assms(1,2) by (simp add: getAction_def)
  have ap: "apply_migration db options m Down t = apply_action db options ?m1 a ?pgm t"
    using ga assms(2) by (simp add: apply_migration_def)
  have rb: "run_body db (body a) ?pgm t = ((None, ?pgm1), t)"
    using assms(3) by (intro run_body_reversible) (simp_all add: enableReverseMode_def)
  have mk: "getMarkAsRun options ?m1 a t =
      (Inr ?mark, t @ [Log (''### MIGRATION '' @ name m @ '' (DOWN) ###'')])"
    using getMarkAsRun_down[of a ?m1 options t] assms(2) by simp
  have gs: "getSqlSteps ?pgm1 = ?undo"
    by (simp add: getSqlSteps_def enableReverseMode_def new_MigrationBuilder_def)
  have rt: "reconcile_transaction options ?pgm1 (getSqlSteps ?pgm1 @ [?mark]) = ([], ?sqlSteps)"
    unfolding gs
    by (simp add: reconcile_transaction_def isUsingTransaction_def enableReverseMode_def
        new_MigrationBuilder_def)
  have "apply_migration db options m Down t =
          run_steps db options ?sqlSteps
            (t @ [Log (''### MIGRATION '' @ name m @ '' (DOWN) ###''), sql_log ?sqlSteps])"
    unfolding ap using apply_action_statements[OF rb mk rt] by simp
  then show ?thesis by (simp add: Let_def)
qed

lemma example_F_fields:
  "down example_F = Undefined" "up example_F = Fn example_extensions_up"
  "name example_F = ''6_f''"
  by (simp_all add: example_F_def)

lemma example_extensions_reversible: "list_all reversible (body example_extensions_up)"
  by (simp add: example_extensions_up_def createExtension_def dropExtension_def)

lemma example_extensions_reverse_sql:
  "map reverse_sql (body example_extensions_up) =
     [[''DROP EXTENSION \"a\";'', ''DROP EXTENSION \"b\";''], [''DROP EXTENSION \"c\";'']]"
  by (simp add: example_extensions_up_def createExtension_def dropExtension_def as_array_def
      no_extension_options_def quote_def)

section \<open>The builder in reverse mode\<close>

text \<open>
  While reverse mode is active, calling an operation that has no reverse function throws
  at once. The builder is left as it was, so nothing is appended to its steps, and the
  body stops there. The message embeds the \<^verbatim>\<open>name\<close> property of the wrapped function.
\<close>

lemma wrap_reverse_mode_no_reverse:
  assumes "REVERSE_MODE pgm" and "reverse operation = None"
  shows "wrap operation args pgm =
           (Some (Error (''Impossible to automatically infer down migration for \"pgm.''
                         @ op_name operation @ ''()\"'')), pgm)
         \<and> run_body db (Operation operation args # rest) pgm t =
             ((Some (Error (''Impossible to automatically infer down migration for \"pgm.''
                            @ op_name operation @ ''()\"'')), pgm), t)"
  using assms by (simp add: wrap_def)

text \<open>
  C6, at \<^verbatim>\<open>pgm.sql\<close> and \<^verbatim>\<open>pgm.dropExtension\<close>. In reverse mode both calls throw and
  leave the builder as it was, but the message does not name the operation: the wrapped
  function of \<^verbatim>\<open>pgm.sql\<close> is anonymous, so the message says \<open>pgm.()\<close>, and the wrapped
  function of \<^verbatim>\<open>pgm.dropExtension\<close> is named \<open>_drop\<close>, so the message says
  \<open>pgm._drop()\<close>, as it does for every other operation whose inner function is \<open>_drop\<close>.
\<close>

theorem reverse_mode_message_names_inner_function:
  "wrap (other_sql t) args (enableReverseMode new_MigrationBuilder) =
     (Some (Error ''Impossible to automatically infer down migration for \"pgm.()\"''),
      enableReverseMode new_MigrationBuilder)
   \<and> wrap (dropExtension literal) args2 (enableReverseMode new_MigrationBuilder) =
     (Some (Error ''Impossible to automatically infer down migration for \"pgm._drop()\"''),
      enableReverseMode new_MigrationBuilder)"
  by (simp add: wrap_def other_sql_def dropExtension_def enableReverseMode_def)

text \<open>
  C1, as the code has it. A migration that exports only \<open>up\<close>, whose body calls only
  operations with a reverse function (each returning): applying it in direction down runs
  the body in reverse mode, where each call appends the statements of its reverse result
  in call order, and the statements handed to the executor are the reversed copy of these
  steps, followed by the DELETE of the history row (inside BEGIN/COMMIT unless the run has
  one global transaction). The reversed copy is, in reverse call order, the statements of
  each call's reverse result in reverse order. When every reverse result is a single
  statement (or none), it is each call's reverse result in reverse call order.
\<close>

theorem inferred_down_reverses_steps:
  assumes "down m = Undefined" and "up m = Fn a" and "list_all reversible (body a)"
  shows "apply_migration db options m Down t =
           (let undo = rev (concat (map reverse_sql (body a)));
                mark = delete_statement options (name m);
                sqlSteps = (if opt_singleTransaction options then undo @ [mark]
                            else ''BEGIN;'' # undo @ [mark, ''COMMIT;''])
            in run_steps db options sqlSteps
                 (t @ [Log (''### MIGRATION '' @ name m @ '' (DOWN) ###''), sql_log sqlSteps]))
         \<and> rev (concat (map reverse_sql (body a)))
             = concat (map (\<lambda>c. rev (reverse_sql c)) (rev (body a)))
         \<and> ((\<forall>c \<in> set (body a). length (reverse_sql c) \<le> 1) \<longrightarrow>
              rev (concat (map reverse_sql (body a))) = concat (map reverse_sql (rev (body a))))"
proof (intro conjI impI)
  show "apply_migration db options m Down t =
           (let undo = rev (concat (map reverse_sql (body a)));
                mark = delete_statement options (name m);
                sqlSteps = (if opt_singleTransaction options then undo @ [mark]
                            else ''BEGIN;'' # undo @ [mark, ''COMMIT;''])
            in run_steps db options sqlSteps
                 (t @ [Log (''### MIGRATION '' @ name m @ '' (DOWN) ###''), sql_log sqlSteps]))"
    by (rule apply_down_up_only[OF assms])
  show flip: "rev (concat (map reverse_sql (body a)))
          = concat (map (\<lambda>c. rev (reverse_sql c)) (rev (body a)))"
    by (simp add: rev_concat rev_map comp_def)
  assume single: "\<forall>c \<in> set (body a). length (reverse_sql c) \<le> 1"
  have "rev (reverse_sql c) = reverse_sql c" if "c \<in> set (body a)" for c
  proof -
    from single that have "length (reverse_sql c) \<le> 1" by simp
    then show ?thesis
      by (cases "reverse_sql c") (simp_all add: Suc_le_eq)
  qed
  then have "map (\<lambda>c. rev (reverse_sql c)) (rev (body a)) = map reverse_sql (rev (body a))"
    by simp
  with flip show "rev (concat (map reverse_sql (body a)))
                    = concat (map reverse_sql (rev (body a)))"
    by simp
qed

theorem inferred_down_reverses_steps_witness:
  "apply_migration (example_db []) example_options example_F Down [] =
     (Inr (),
      [Log ''### MIGRATION 6_f (DOWN) ###'',
       sql_log [''BEGIN;'', ''DROP EXTENSION \"c\";'', ''DROP EXTENSION \"b\";'',
                ''DROP EXTENSION \"a\";'', delete_statement example_options ''6_f'',
                ''COMMIT;''],
       Query ''BEGIN;'', Query ''DROP EXTENSION \"c\";'', Query ''DROP EXTENSION \"b\";'',
       Query ''DROP EXTENSION \"a\";'', Query (delete_statement example_options ''6_f''),
       Query ''COMMIT;''])
   \<and> apply_migration (example_db []) example_options example_up_only Down [] =
     (Inr (),
      [Log ''### MIGRATION 1_a (DOWN) ###'',
       sql_log [''BEGIN;'', ''ALTER TABLE t1 DROP c;'', ''DROP TABLE t1;'',
                delete_statement example_options ''1_a'', ''COMMIT;''],
       Query ''BEGIN;'', Query ''ALTER TABLE t1 DROP c;'', Query ''DROP TABLE t1;'',
       Query (delete_statement example_options ''1_a''), Query ''COMMIT;''])
   \<and> concat (map reverse_sql (rev (body example_up)))
       = [''ALTER TABLE t1 DROP c;'', ''DROP TABLE t1;'']"
proof -
  have h1: "down example_up_only = Undefined" and h2: "up example_up_only = Fn example_up"
    by (simp_all add: example_up_only_def)
  have h3: "list_all reversible (body example_up)"
    by (simp add: example_up_def example_createTable_def example_addColumn_def)
  have sq: "map reverse_sql (body example_up) = [[''DROP TABLE t1;''], [''ALTER TABLE t1 DROP c;'']]"
    by (simp add: example_up_def example_createTable_def example_addColumn_def)
  have h4: "\<forall>c \<in> set (body example_up). length (reverse_sql c) \<le> 1"
    by (simp add: example_up_def example_createTable_def example_addColumn_def)
  note arrays = inferred_down_reverses_steps[OF example_F_fields(1,2)
      example_extensions_reversible, of "example_db []" example_options "[]"]
  note singles = inferred_down_reverses_steps[OF h1 h2 h3, of "example_db []" example_options "[]"]
  from arrays have one:
    "apply_migration (example_db []) example_options example_F Down [] =
     (Inr (),
      [Log ''### MIGRATION 6_f (DOWN) ###'',
       sql_log [''BEGIN;'', ''DROP EXTENSION \"c\";'', ''DROP EXTENSION \"b\";'',
                ''DROP EXTENSION \"a\";'', delete_statement example_options ''6_f'',
                ''COMMIT;''],
       Query ''BEGIN;'', Query ''DROP EXTENSION \"c\";'', Query ''DROP EXTENSION \"b\";'',
       Query ''DROP EXTENSION \"a\";'', Query (delete_statement example_options ''6_f''),
       Query ''COMMIT;''])"
    by (simp del: run_steps.simps
        add: Let_def example_extensions_reverse_sql example_F_fields example_options_fields
          run_steps_accepting)
  from singles have two:
    "apply_migration (example_db []) example_options example_up_only Down [] =
     (Inr (),
      [Log ''### MIGRATION 1_a (DOWN) ###'',
       sql_log [''BEGIN;'', ''ALTER TABLE t1 DROP c;'', ''DROP TABLE t1;'',
                delete_statement example_options ''1_a'', ''COMMIT;''],
       Query ''BEGIN;'', Query ''ALTER TABLE t1 DROP c;'', Query ''DROP TABLE t1;'',
       Query (delete_statement example_options ''1_a''), Query ''COMMIT;''])"
    by (simp del: run_steps.simps
        add: Let_def sq example_up_only_def example_options_fields run_steps_accepting)
  from singles h4 have three: "rev (concat (map reverse_sql (body example_up)))
                  = concat (map reverse_sql (rev (body example_up)))"
    by blast
  from three have "concat (map reverse_sql (rev (body example_up)))
       = [''ALTER TABLE t1 DROP c;'', ''DROP TABLE t1;'']"
    by (simp add: sq)
  with one two show ?thesis by simp
qed

text \<open>
  C1, as stated, fails: the first call creates two extensions, so its reverse result is
  \<open>DROP a, DROP b\<close>. The reverse results in reverse call order are
  \<open>DROP c, DROP a, DROP b\<close>; applying direction down issues \<open>DROP c, DROP b, DROP a\<close>.
\<close>

theorem inferred_down_array_result_counterexample:
  "apply_migration (example_db []) example_options_single example_F Down [] =
     (Inr (),
      [Log ''### MIGRATION 6_f (DOWN) ###'',
       sql_log [''DROP EXTENSION \"c\";'', ''DROP EXTENSION \"b\";'', ''DROP EXTENSION \"a\";'',
                delete_statement example_options_single ''6_f''],
       Query ''DROP EXTENSION \"c\";'', Query ''DROP EXTENSION \"b\";'',
       Query ''DROP EXTENSION \"a\";'', Query (delete_statement example_options_single ''6_f'')])
   \<and> concat (map reverse_sql (rev (body example_extensions_up)))
       = [''DROP EXTENSION \"c\";'', ''DROP EXTENSION \"a\";'', ''DROP EXTENSION \"b\";'']"
proof -
  from apply_down_up_only[OF example_F_fields(1,2) example_extensions_reversible,
      of "example_db []" example_options_single "[]"]
  have "apply_migration (example_db []) example_options_single example_F Down [] =
     (Inr (),
      [Log ''### MIGRATION 6_f (DOWN) ###'',
       sql_log [''DROP EXTENSION \"c\";'', ''DROP EXTENSION \"b\";'', ''DROP EXTENSION \"a\";'',
                delete_statement example_options_single ''6_f''],
       Query ''DROP EXTENSION \"c\";'', Query ''DROP EXTENSION \"b\";'',
       Query ''DROP EXTENSION \"a\";'', Query (delete_statement example_options_single ''6_f'')])"
    by (simp del: run_steps.simps
        add: Let_def example_extensions_reverse_sql example_F_fields
          example_options_single_fields run_steps_accepting)
  moreover have "concat (map reverse_sql (rev (body example_extensions_up)))
       = [''DROP EXTENSION \"c\";'', ''DROP EXTENSION \"a\";'', ''DROP EXTENSION \"b\";'']"
    using example_extensions_reverse_sql by (simp add: rev_map[symmetric])
  ultimately show ?thesis by simp
qed

section \<open>The migration record\<close>

text \<open>
  C4. Once the body of a migration has run and the mark-as-run statement is chosen, the
  statement list (the steps of the builder, then the mark) is wrapped by the run's
  transaction mode and the builder's transaction flag: BEGIN/COMMIT around it when the run
  has no global transaction and the flag is set; COMMIT/BEGIN around it, with a warning
  logged, when the run has a global transaction and the flag is off; no wrapping and a
  warning when neither has a transaction; no wrapping and no warning when the run has a
  global transaction and the flag is set. The list is logged and handed to the executor.
\<close>

theorem transaction_reconciliation:
  assumes "run_body db (body action) pgm t = ((None, pgm1), t1)"
      and "getMarkAsRun options m action t1 = (Inr mark, t2)"
  shows "(\<not> opt_singleTransaction options \<and> isUsingTransaction pgm1 \<longrightarrow>
            apply_action db options m action pgm t =
              run_steps db options (''BEGIN;'' # getSqlSteps pgm1 @ [mark, ''COMMIT;''])
                (t2 @ [sql_log (''BEGIN;'' # getSqlSteps pgm1 @ [mark, ''COMMIT;''])]))
       \<and> (opt_singleTransaction options \<and> \<not> isUsingTransaction pgm1 \<longrightarrow>
            apply_action db options m action pgm t =
              run_steps db options (''COMMIT;'' # getSqlSteps pgm1 @ [mark, ''BEGIN;''])
                (t2 @ [Log ''#> WARNING: Need to break single transaction! <'',
                       sql_log (''COMMIT;'' # getSqlSteps pgm1 @ [mark, ''BEGIN;''])]))
       \<and> (\<not> opt_singleTransaction options \<and> \<not> isUsingTransaction pgm1 \<longrightarrow>
            apply_action db options m action pgm t =
              run_steps db options (getSqlSteps pgm1 @ [mark])
                (t2 @ [Log ''#> WARNING: This migration is not wrapped in a transaction! <'',
                       sql_log (getSqlSteps pgm1 @ [mark])]))
       \<and> (opt_singleTransaction options \<and> isUsingTransaction pgm1 \<longrightarrow>
            apply_action db options m action pgm t =
              run_steps db options (getSqlSteps pgm1 @ [mark])
                (t2 @ [sql_log (getSqlSteps pgm1 @ [mark])]))"
proof (intro conjI impI)
  assume "\<not> opt_singleTransaction options \<and> isUsingTransaction pgm1"
  then have "reconcile_transaction options pgm1 (getSqlSteps pgm1 @ [mark]) =
               ([], ''BEGIN;'' # getSqlSteps pgm1 @ [mark, ''COMMIT;''])"
    by (simp add: reconcile_transaction_def)
  from apply_action_statements[OF assms this]
  show "apply_action db options m action pgm t =
          run_steps db options (''BEGIN;'' # getSqlSteps pgm1 @ [mark, ''COMMIT;''])
            (t2 @ [sql_log (''BEGIN;'' # getSqlSteps pgm1 @ [mark, ''COMMIT;''])])"
    by simp
next
  assume "opt_singleTransaction options \<and> \<not> isUsingTransaction pgm1"
  then have "reconcile_transaction options pgm1 (getSqlSteps pgm1 @ [mark]) =
               ([''#> WARNING: Need to break single transaction! <''],
                ''COMMIT;'' # getSqlSteps pgm1 @ [mark, ''BEGIN;''])"
    by (simp add: reconcile_transaction_def)
  from apply_action_statements[OF assms this]
  show "apply_action db options m action pgm t =
          run_steps db options (''COMMIT;'' # getSqlSteps pgm1 @ [mark, ''BEGIN;''])
            (t2 @ [Log ''#> WARNING: Need to break single transaction! <'',
                   sql_log (''COMMIT;'' # getSqlSteps pgm1 @ [mark, ''BEGIN;''])])"
    by simp
next
  assume "\<not> opt_singleTransaction options \<and> \<not> isUsingTransaction pgm1"
  then have "reconcile_transaction options pgm1 (getSqlSteps pgm1 @ [mark]) =
               ([''#> WARNING: This migration is not wrapped in a transaction! <''],
                getSqlSteps pgm1 @ [mark])"
    by (simp add: reconcile_transaction_def)
  from apply_action_statements[OF assms this]
  show "apply_action db options m action pgm t =
          run_steps db options (getSqlSteps pgm1 @ [mark])
            (t2 @ [Log ''#> WARNING: This migration is not wrapped in a transaction! <'',
                   sql_log (getSqlSteps pgm1 @ [mark])])"
    by simp
next
  assume "opt_singleTransaction options \<and> isUsingTransaction pgm1"
  then have "reconcile_transaction options pgm1 (getSqlSteps pgm1 @ [mark]) =
               ([], getSqlSteps pgm1 @ [mark])"
    by (simp add: reconcile_transaction_def)
  from apply_action_statements[OF assms this]
  show "apply_action db options m action pgm t =
          run_steps db options (getSqlSteps pgm1 @ [mark])
            (t2 @ [sql_log (getSqlSteps pgm1 @ [mark])])"
    by simp
qed

lemma example_plain_body:
  "run_body (example_db []) (body example_plain) new_MigrationBuilder [] =
     ((None, \<lparr>steps = [''SELECT 1;''], REVERSE_MODE = False, use_transaction = True\<rparr>), [])"
  by (simp add: example_plain_def example_sql_def other_sql_def wrap_def new_MigrationBuilder_def)

lemma example_no_transaction_body:
  "run_body (example_db []) (body example_no_transaction) new_MigrationBuilder [] =
     ((None, \<lparr>steps = [''VACUUM;''], REVERSE_MODE = False, use_transaction = False\<rparr>), [])"
  by (simp add: example_no_transaction_def example_sql_def other_sql_def wrap_def new_MigrationBuilder_def
      noTransaction_def)

lemma example_D_mark:
  "getMarkAsRun options example_D example_plain [] =
     (Inr (insert_statement options ''4_d''), [Log ''### MIGRATION 4_d (UP) ###''])"
  using getMarkAsRun_up[of example_plain example_D options "[]"]
  by (simp add: example_D_def)

lemma example_E_mark:
  "getMarkAsRun options example_E example_no_transaction [] =
     (Inr (insert_statement options ''5_e''), [Log ''### MIGRATION 5_e (UP) ###''])"
  using getMarkAsRun_up[of example_no_transaction example_E options "[]"]
  by (simp add: example_E_def)

theorem transaction_reconciliation_witness:
  "apply_action (example_db []) example_options example_D example_plain new_MigrationBuilder [] =
     (Inr (),
      [Log ''### MIGRATION 4_d (UP) ###'',
       sql_log [''BEGIN;'', ''SELECT 1;'', insert_statement example_options ''4_d'', ''COMMIT;''],
       Query ''BEGIN;'', Query ''SELECT 1;'', Query (insert_statement example_options ''4_d''),
       Query ''COMMIT;''])
   \<and> apply_action (example_db []) (example_options\<lparr>opt_singleTransaction := True\<rparr>) example_E
        example_no_transaction new_MigrationBuilder [] =
     (Inr (),
      [Log ''### MIGRATION 5_e (UP) ###'',
       Log ''#> WARNING: Need to break single transaction! <'',
       sql_log [''COMMIT;'', ''VACUUM;'',
                insert_statement (example_options\<lparr>opt_singleTransaction := True\<rparr>) ''5_e'',
                ''BEGIN;''],
       Query ''COMMIT;'', Query ''VACUUM;'',
       Query (insert_statement (example_options\<lparr>opt_singleTransaction := True\<rparr>) ''5_e''),
       Query ''BEGIN;''])
   \<and> apply_action (example_db []) example_options example_E example_no_transaction
        new_MigrationBuilder [] =
     (Inr (),
      [Log ''### MIGRATION 5_e (UP) ###'',
       Log ''#> WARNING: This migration is not wrapped in a transaction! <'',
       sql_log [''VACUUM;'', insert_statement example_options ''5_e''],
       Query ''VACUUM;'', Query (insert_statement example_options ''5_e'')])
   \<and> apply_action (example_db []) (example_options\<lparr>opt_singleTransaction := True\<rparr>) example_D
        example_plain new_MigrationBuilder [] =
     (Inr (),
      [Log ''### MIGRATION 4_d (UP) ###'',
       sql_log [''SELECT 1;'',
                insert_statement (example_options\<lparr>opt_singleTransaction := True\<rparr>) ''4_d''],
       Query ''SELECT 1;'',
       Query (insert_statement (example_options\<lparr>opt_singleTransaction := True\<rparr>) ''4_d'')])"
proof -
  let ?single = "example_options\<lparr>opt_singleTransaction := True\<rparr>"
  have dry: "\<not> opt_dryRun example_options" "\<not> opt_dryRun ?single"
    by (simp_all add: example_options_def)
  have flags: "\<not> opt_singleTransaction example_options" "opt_singleTransaction ?single"
    by (simp_all add: example_options_def)
  show ?thesis
    using transaction_reconciliation[OF example_plain_body example_D_mark, of example_options]
      transaction_reconciliation[OF example_no_transaction_body example_E_mark, of ?single]
      transaction_reconciliation[OF example_no_transaction_body example_E_mark, of example_options]
      transaction_reconciliation[OF example_plain_body example_D_mark, of ?single]
      flags
    by (simp del: run_steps.simps
        add: isUsingTransaction_def getSqlSteps_def run_steps_accepting[OF dry(1)]
          run_steps_accepting[OF dry(2)])
qed

text \<open>
  C8. A migration whose \<open>up\<close> and \<open>down\<close> are the same function value: applying it in
  direction up passes the action a builder with reverse mode enabled, and the mark-as-run
  statement chosen for that action is the DELETE form, logged as DOWN, because the switch
  tests \<open>down\<close> first.
\<close>

theorem same_function_up_marks_down:
  assumes "up m = Fn f" and "down m = Fn f"
  shows "apply_migration db options m Up t
           = apply_action db options m f (enableReverseMode new_MigrationBuilder) t
         \<and> REVERSE_MODE (enableReverseMode new_MigrationBuilder)
         \<and> getMarkAsRun options m f t1 =
             (Inr (delete_statement options (name m)),
              t1 @ [Log (''### MIGRATION '' @ name m @ '' (DOWN) ###'')])
         \<and> delete_statement options (name m) \<noteq> insert_statement options (name m)"
  using assms getMarkAsRun_down[of f m options t1]
  by (simp add: apply_migration_def getAction_def enableReverseMode_def
      delete_statement_def insert_statement_def)

theorem same_function_up_marks_down_witness:
  "apply_migration (example_db []) example_options example_same Up [] =
     (Inr (),
      [Log ''### MIGRATION 1_a (DOWN) ###'',
       sql_log [''BEGIN;'', ''ALTER TABLE t1 DROP c;'', ''DROP TABLE t1;'',
                delete_statement example_options ''1_a'', ''COMMIT;''],
       Query ''BEGIN;'', Query ''ALTER TABLE t1 DROP c;'', Query ''DROP TABLE t1;'',
       Query (delete_statement example_options ''1_a''), Query ''COMMIT;''])"
proof -
  have h1: "up example_same = Fn example_up" and h2: "down example_same = Fn example_up"
    by (simp_all add: example_same_def)
  have rb: "run_body (example_db []) (body example_up)
              (enableReverseMode new_MigrationBuilder) [] =
            ((None, \<lparr>steps = [''DROP TABLE t1;'', ''ALTER TABLE t1 DROP c;''],
                     REVERSE_MODE = True, use_transaction = True\<rparr>), [])"
    by (simp add: example_up_def example_createTable_def example_addColumn_def wrap_def
        enableReverseMode_def new_MigrationBuilder_def)
  have dry: "\<not> opt_dryRun example_options"
    by (simp add: example_options_def)
  have rt: "reconcile_transaction example_options
              \<lparr>steps = [''DROP TABLE t1;'', ''ALTER TABLE t1 DROP c;''],
               REVERSE_MODE = True, use_transaction = True\<rparr>
              (getSqlSteps \<lparr>steps = [''DROP TABLE t1;'', ''ALTER TABLE t1 DROP c;''],
                            REVERSE_MODE = True, use_transaction = True\<rparr>
               @ [delete_statement example_options (name example_same)]) =
            ([], [''BEGIN;'', ''ALTER TABLE t1 DROP c;'', ''DROP TABLE t1;'',
                  delete_statement example_options ''1_a'', ''COMMIT;''])"
    by (simp add: reconcile_transaction_def isUsingTransaction_def getSqlSteps_def
        example_options_def example_same_def)
  from same_function_up_marks_down[OF h1 h2, of "example_db []" example_options "[]" "[]"]
  have ap: "apply_migration (example_db []) example_options example_same Up [] =
              apply_action (example_db []) example_options example_same example_up
                (enableReverseMode new_MigrationBuilder) []"
    and mk: "getMarkAsRun example_options example_same example_up [] =
               (Inr (delete_statement example_options (name example_same)),
                [] @ [Log (''### MIGRATION '' @ name example_same @ '' (DOWN) ###'')])"
    by simp_all
  show ?thesis
    unfolding ap
    using apply_action_statements[OF rb mk rt]
    by (simp del: run_steps.simps add: run_steps_accepting[OF dry] example_same_def)
qed

section \<open>The order check\<close>

lemma checkOrder_loop_agree:
  "(\<forall>j. i \<le> j \<and> j < len \<longrightarrow> runNames ! j = name (migrations ! j)) \<Longrightarrow>
   checkOrder_loop runNames migrations len i = None"
proof (induction runNames migrations len i rule: checkOrder_loop.induct)
  case (1 runNames migrations len i)
  show ?case
  proof (cases "i < len")
    case True
    with 1 show ?thesis
      by (subst checkOrder_loop.simps) (simp add: Let_def)
  next
    case False
    then show ?thesis
      by (subst checkOrder_loop.simps) simp
  qed
qed

lemma checkOrder_loop_first:
  "i \<le> k \<Longrightarrow> k < len \<Longrightarrow>
   (\<forall>j. i \<le> j \<and> j < k \<longrightarrow> runNames ! j = name (migrations ! j)) \<Longrightarrow>
   runNames ! k \<noteq> name (migrations ! k) \<Longrightarrow>
   checkOrder_loop runNames migrations len i =
     Some (Error (''Not run migration '' @ name (migrations ! k)
                  @ '' is preceding already run migration '' @ runNames ! k))"
proof (induction runNames migrations len i rule: checkOrder_loop.induct)
  case (1 runNames migrations len i)
  show ?case
  proof (cases "i = k")
    case True
    with "1.prems" show ?thesis
      by (subst checkOrder_loop.simps) (simp add: Let_def)
  next
    case False
    with "1.prems" have lt: "i < k" and agree: "runNames ! i = name (migrations ! i)"
      by simp_all
    from lt "1.prems" have "i < len" by simp
    moreover have "checkOrder_loop runNames migrations len (i + 1) =
        Some (Error (''Not run migration '' @ name (migrations ! k)
                     @ '' is preceding already run migration '' @ runNames ! k))"
      using "1.IH"[OF \<open>i < len\<close> refl refl] agree lt "1.prems" by simp
    ultimately show ?thesis
      using agree by (subst checkOrder_loop.simps) (simp add: Let_def)
  qed
qed

lemma runner_order_violation:
  assumes "opt_checkOrder options"
      and "prepare db fs options [] = (Inr (migrations, runNames), t)"
      and "checkOrder runNames migrations = Some e"
  shows "runner db fs options = (Inl e, t @ [Close])"
  using assms by (simp add: runner_def select_migrations_def bind_def throw_def)

text \<open>
  C5. The order check compares the recorded names with the names of the discovered
  migrations position by position, over the shorter of the two lists. It passes when they
  agree everywhere; otherwise it fails at the first position where they differ, with an
  error that names the discovered migration and the recorded name of that position. With
  the history \<open>[a, c]\<close> and the files \<open>A, B, C\<close> it fails at position 1. With order
  checking enabled, once connection, lock, files and history are there, a failing check
  makes the runner fail with that error and do nothing more than close the connection.
\<close>

theorem checkOrder_first_mismatch:
  "((\<forall>i < min (length runNames) (length migrations). runNames ! i = name (migrations ! i)) \<longrightarrow>
      checkOrder runNames migrations = None)
   \<and> (k < min (length runNames) (length migrations)
        \<and> (\<forall>j < k. runNames ! j = name (migrations ! j))
        \<and> runNames ! k \<noteq> name (migrations ! k) \<longrightarrow>
      checkOrder runNames migrations =
        Some (Error (''Not run migration '' @ name (migrations ! k)
                     @ '' is preceding already run migration '' @ runNames ! k)))
   \<and> (name mA = a \<and> name mB \<noteq> c \<longrightarrow>
      checkOrder [a, c] [mA, mB, mC] =
        Some (Error (''Not run migration '' @ name mB
                     @ '' is preceding already run migration '' @ c)))
   \<and> (opt_checkOrder options
        \<and> prepare db fs options [] = (Inr (migrations, runNames), t)
        \<and> checkOrder runNames migrations = Some e \<longrightarrow>
      runner db fs options = (Inl e, t @ [Close]))"
proof (intro conjI impI)
  assume "\<forall>i < min (length runNames) (length migrations). runNames ! i = name (migrations ! i)"
  then show "checkOrder runNames migrations = None"
    unfolding checkOrder_def by (intro checkOrder_loop_agree) simp
next
  assume "k < min (length runNames) (length migrations)
        \<and> (\<forall>j < k. runNames ! j = name (migrations ! j))
        \<and> runNames ! k \<noteq> name (migrations ! k)"
  then show "checkOrder runNames migrations =
        Some (Error (''Not run migration '' @ name (migrations ! k)
                     @ '' is preceding already run migration '' @ runNames ! k))"
    unfolding checkOrder_def by (intro checkOrder_loop_first) simp_all
next
  assume h: "name mA = a \<and> name mB \<noteq> c"
  have "checkOrder_loop [a, c] [mA, mB, mC] (min (length [a, c]) (length [mA, mB, mC])) 0 =
          Some (Error (''Not run migration '' @ name ([mA, mB, mC] ! 1)
                       @ '' is preceding already run migration '' @ [a, c] ! 1))"
  proof (rule checkOrder_loop_first)
    show "\<forall>j. 0 \<le> j \<and> j < 1 \<longrightarrow> [a, c] ! j = name ([mA, mB, mC] ! j)"
      using h by simp
    show "[a, c] ! 1 \<noteq> name ([mA, mB, mC] ! 1)"
      using h by auto
  qed simp_all
  then show "checkOrder [a, c] [mA, mB, mC] =
        Some (Error (''Not run migration '' @ name mB
                     @ '' is preceding already run migration '' @ c))"
    by (simp add: checkOrder_def)
next
  assume "opt_checkOrder options
        \<and> prepare db fs options [] = (Inr (migrations, runNames), t)
        \<and> checkOrder runNames migrations = Some e"
  then show "runner db fs options = (Inl e, t @ [Close])"
    by (simp add: runner_order_violation)
qed

lemma example_db_replies:
  "createConnection_reply (example_db h) = None"
  "query_reply (example_db h) t sql = None"
  "select_reply (example_db h) t sql =
     (if sql = lock_sql then Inr [[(''lockObtained'', ''true'')]] else Inr [])"
  "column_reply (example_db h) t col sql = Inr h"
  by (simp_all add: example_db_def)

lemma example_connect_and_lock:
  "connect_and_lock (example_db h) example_options [] =
     (Inr (), [Connect, Select (table_exists_sql example_options),
               Query (create_table_sql (example_db h) example_options), Select lock_sql])"
proof -
  have ne: "table_exists_sql example_options \<noteq> lock_sql"
    by (simp add: table_exists_sql_def lock_sql_def)
  show ?thesis
    by (simp add: connect_and_lock_def create_schemas_def create_migrations_schema_def
        ensureMigrationsTable_def lock_def io_defs example_db_replies example_options_fields
        schema_given_def ne)
qed

lemma example_prepare:
  "prepare (example_db h) (example_loader ms) example_options [] =
     (Inr (ms, h),
      [Connect, Select (table_exists_sql example_options),
       Query (create_table_sql (example_db h) example_options), Select lock_sql,
       ReadDir, Column ''name'' (history_sql (example_db h) example_options)])"
  by (simp add: prepare_def bind_def example_connect_and_lock load_and_history_def
      loadMigrations_def getRunMigrations_def db_column_def example_db_replies
      example_loader_def)

theorem checkOrder_first_mismatch_witness:
  "runner (example_db [''1_a'', ''3_c'']) (example_loader [example_A, example_B, example_C])
     example_options =
     (Inl (Error ''Not run migration 2_b is preceding already run migration 3_c''),
      [Connect, Select (table_exists_sql example_options),
       Query (create_table_sql (example_db [''1_a'', ''3_c'']) example_options),
       Select lock_sql, ReadDir,
       Column ''name'' (history_sql (example_db [''1_a'', ''3_c'']) example_options),
       Close])"
proof -
  let ?db = "example_db [''1_a'', ''3_c'']"
  let ?fs = "example_loader [example_A, example_B, example_C]"
  let ?t = "[Connect, Select (table_exists_sql example_options),
             Query (create_table_sql ?db example_options), Select lock_sql, ReadDir,
             Column ''name'' (history_sql ?db example_options)]"
  let ?e = "Error (''Not run migration '' @ name example_B
                   @ '' is preceding already run migration '' @ ''3_c'')"
  note inst = checkOrder_first_mismatch[where runNames = "[''1_a'', ''3_c'']"
      and migrations = "[example_A, example_B, example_C]" and k = 0
      and mA = example_A and a = "''1_a''" and mB = example_B and c = "''3_c''"
      and mC = example_C and options = example_options and db = ?db and fs = ?fs
      and t = ?t and e = ?e]
  have names: "name example_A = ''1_a'' \<and> name example_B \<noteq> ''3_c''"
    by (simp add: example_A_def example_B_def example_migration_def)
  from inst names
  have chk: "checkOrder [''1_a'', ''3_c''] [example_A, example_B, example_C] = Some ?e"
    by blast
  have pre: "prepare ?db ?fs example_options [] =
               (Inr ([example_A, example_B, example_C], [''1_a'', ''3_c'']), ?t)"
    by (rule example_prepare)
  from inst chk pre example_options_fields(4)
  have "runner ?db ?fs example_options = (Inl ?e, ?t @ [Close])"
    by blast
  then show ?thesis
    by (simp add: example_B_def example_migration_def)
qed

section \<open>The runner\<close>

lemma bind_Inr:
  "bind m f t = (Inr y, t') \<Longrightarrow> \<exists>x t1. m t = (Inr x, t1) \<and> f x t1 = (Inr y, t')"
  by (auto simp: bind_def split: prod.splits sum.splits)

lemma issues_bind:
  assumes "issues m t es" and "\<And>x. fst (m t) = Inr x \<Longrightarrow> issues (f x) (t @ es) es'"
  shows "issues (bind m f) t (es @ es')"
proof (cases "m t")
  case (Pair r t1)
  show ?thesis
  proof (cases r)
    case (Inl e)
    with Pair assms(1) show ?thesis
      by (auto simp: issues_def bind_def prefix_def)
  next
    case (Inr x)
    with Pair assms(1) have t1: "t1 = t @ es" by (simp add: issues_def)
    from assms(2)[of x] Pair Inr have "issues (f x) (t @ es) es'" by simp
    with Pair Inr t1 show ?thesis
      by (auto simp: issues_def bind_def prefix_def)
  qed
qed

lemma issues_ret: "issues (ret x) t []"
  by (simp add: issues_def ret_def)

lemma issues_db_query: "issues (db_query db sql) t [Query sql]"
  by (simp add: issues_def db_query_def)

lemma issues_db_createConnection: "issues (db_createConnection db) t [Connect]"
  by (simp add: issues_def db_createConnection_def)

lemma query_all_trace: "snd (query_all db qs t) = t @ map Query qs"
proof (induction qs arbitrary: t)
  case Nil
  then show ?case by (simp add: ret_def)
next
  case (Cons q qs)
  from Cons[of "t @ [Query q]"] show ?case
    by (cases "query_all db qs (t @ [Query q])") (simp add: db_query_def)
qed

lemma issues_query_all: "issues (query_all db qs) t (map Query qs)"
  by (simp add: issues_def query_all_trace)

lemma issues_create_schemas: "issues (create_schemas db options) t (schema_events options)"
proof -
  have a: "issues (bind (query_all db qs) (\<lambda>_. db_query db q)) t (map Query qs @ [Query q])"
    for qs q
    by (intro issues_bind issues_query_all issues_db_query)
  have b: "issues (bind (ret ()) (\<lambda>_. db_query db q)) t ([] @ [Query q])" for q
    by (intro issues_bind issues_ret issues_db_query)
  from a[of "map create_schema_sql (getSchemas (opt_schema options))"
        "search_path_sql (getSchemas (opt_schema options))"]
    b[of "search_path_sql (getSchemas (opt_schema options))"]
  show ?thesis
    by (simp add: create_schemas_def schema_events_def Let_def issues_ret comp_def)
qed

lemma issues_create_migrations_schema:
  "issues (create_migrations_schema db options) t (migrations_schema_events options)"
  by (simp add: create_migrations_schema_def migrations_schema_events_def issues_ret
      issues_db_query split: option.splits)

lemma issues_ensureMigrationsTable:
  "issues (ensureMigrationsTable db options) t (table_events db options t)"
  by (simp add: issues_def ensureMigrationsTable_def table_events_def try_catch_def bind_def
      db_select_def db_query_def throw_def ret_def split: sum.splits option.splits)

lemma issues_lock: "issues (lock db) t [Select lock_sql]"
  by (simp add: issues_def lock_def bind_def db_select_def throw_def ret_def
      split: sum.splits list.splits)

lemma issues_connect_and_lock: "issues (connect_and_lock db options) [] (setup_events db options)"
proof -
  let ?t3 = "[Connect] @ schema_events options @ migrations_schema_events options"
  have l: "issues (if \<not> opt_noLock options then lock db else ret ()) t
             (if \<not> opt_noLock options then [Select lock_sql] else [])" for t
    by (simp add: issues_lock issues_ret)
  have "issues (connect_and_lock db options) []
          ([Connect] @ schema_events options @ migrations_schema_events options
           @ table_events db options ?t3
           @ (if \<not> opt_noLock options then [Select lock_sql] else []))"
    unfolding connect_and_lock_def
    apply (rule issues_bind[OF issues_db_createConnection])
    apply (rule issues_bind[OF issues_create_schemas])
    apply (rule issues_bind[OF issues_create_migrations_schema])
    apply (rule issues_bind)
     apply (simp only: append_Nil append_assoc)
     apply (rule issues_ensureMigrationsTable)
    apply (rule l)
    done
  then show ?thesis
    by (cases "opt_noLock options") (simp_all add: setup_events_def Let_def)
qed

lemma setup_events_no_ReadDir: "ReadDir \<notin> set (setup_events db options)"
  by (auto simp: setup_events_def Let_def schema_events_def migrations_schema_events_def
      table_events_def split: option.splits sum.splits if_splits)

lemma lock_rows:
  "lock db t4 = (Inr (), t) \<Longrightarrow>
   t = t4 @ [Select lock_sql] \<and> (\<exists>row rows. select_reply db t4 lock_sql = Inr (row # rows))"
  by (auto simp: lock_def bind_def db_select_def throw_def ret_def
      split: sum.splits list.splits)

lemma load_and_history_failed_load:
  assumes "load_reply fs = Inl err"
  shows "load_and_history db fs options t =
           (Inl (case column_reply db (t @ [ReadDir]) ''name'' (history_sql db options) of
                   Inl e2 \<Rightarrow> if load_rejects_first fs
                             then ErrorWithStack ''Can't get migration files: '' err else e2
                 | Inr _ \<Rightarrow> ErrorWithStack ''Can't get migration files: '' err),
            t @ [ReadDir, Column ''name'' (history_sql db options)])"
  using assms
  by (simp add: load_and_history_def loadMigrations_def getRunMigrations_def db_column_def
      split: sum.splits)

lemma runner_prepare_failed:
  "prepare db fs options [] = (Inl e, t) \<Longrightarrow> runner db fs options = (Inl e, t @ [Close])"
  by (simp add: runner_def select_migrations_def bind_def)

lemma connect_and_lock_granted:
  assumes "connect_and_lock db options [] = (Inr (), t)" and "\<not> opt_noLock options"
  shows "\<exists>t4 row rows. t = t4 @ [Select lock_sql]
                        \<and> select_reply db t4 lock_sql = Inr (row # rows)"
proof -
  let ?lock = "if \<not> opt_noLock options then lock db else ret ()"
  from bind_Inr[OF assms(1)[unfolded connect_and_lock_def]]
  obtain x1 t1 where
    r1: "bind (create_schemas db options) (\<lambda>_.
               bind (create_migrations_schema db options) (\<lambda>_.
               bind (ensureMigrationsTable db options) (\<lambda>_. ?lock))) t1 = (Inr (), t)"
    by blast
  from bind_Inr[OF r1]
  obtain x2 t2 where
    r2: "bind (create_migrations_schema db options) (\<lambda>_.
               bind (ensureMigrationsTable db options) (\<lambda>_. ?lock)) t2 = (Inr (), t)"
    by blast
  from bind_Inr[OF r2]
  obtain x3 t3 where
    r3: "bind (ensureMigrationsTable db options) (\<lambda>_. ?lock) t3 = (Inr (), t)"
    by blast
  from bind_Inr[OF r3]
  obtain x4 t4 where l: "?lock t4 = (Inr (), t)"
    by blast
  with assms(2) have "lock db t4 = (Inr (), t)" by simp
  from lock_rows[OF this] show ?thesis by blast
qed

text \<open>
  C2, as the code has it. When loading the migration files fails, the runner has by then
  gone through its setup, in this order: it has opened the connection; issued the schema
  statements when a schema is configured (a CREATE SCHEMA for each schema when
  \<^verbatim>\<open>createSchema\<close> is set, then SET search_path) and the CREATE SCHEMA of the migrations
  schema when that is configured with \<^verbatim>\<open>createMigrationsSchema\<close>; looked the history
  table up and issued its CREATE TABLE when the lookup does not return exactly one row,
  otherwise looked its primary key up and issued ADD PRIMARY KEY when that lookup does not
  return exactly one row; and, unless locking is off, issued the advisory-lock query as
  the last step and received at least one row in reply (the first row is what is tested,
  not its \<^verbatim>\<open>lockObtained\<close> column). Then the directory is read and the history query is
  issued. The error raised is "Can't get migration files" (or the error of the history
  query, when that fails too and is the first to reject). Nothing follows but closing the
  connection: no order check, no selection, no migration statement. When a setup step
  fails, its error is raised, only an initial part of the setup has been done, and the
  directory is not read.
\<close>

theorem load_failure_follows_setup:
  assumes "load_reply fs = Inl err"
  shows "runner db fs options =
           (case connect_and_lock db options [] of
              (Inl e, t) \<Rightarrow> (Inl e, t @ [Close])
            | (Inr _, t) \<Rightarrow>
                (Inl (case column_reply db (t @ [ReadDir]) ''name'' (history_sql db options) of
                        Inl e2 \<Rightarrow> if load_rejects_first fs
                                  then ErrorWithStack ''Can't get migration files: '' err
                                  else e2
                      | Inr _ \<Rightarrow> ErrorWithStack ''Can't get migration files: '' err),
                 t @ [ReadDir, Column ''name'' (history_sql db options), Close]))
         \<and> prefix (snd (connect_and_lock db options [])) (setup_events db options)
         \<and> ReadDir \<notin> set (snd (connect_and_lock db options []))
         \<and> (\<forall>t. connect_and_lock db options [] = (Inr (), t) \<longrightarrow>
               t = setup_events db options
               \<and> (\<not> opt_noLock options \<longrightarrow>
                    (\<exists>t4 row rows. t = t4 @ [Select lock_sql]
                                   \<and> select_reply db t4 lock_sql = Inr (row # rows))))"
proof (intro conjI allI impI)
  show "runner db fs options =
           (case connect_and_lock db options [] of
              (Inl e, t) \<Rightarrow> (Inl e, t @ [Close])
            | (Inr _, t) \<Rightarrow>
                (Inl (case column_reply db (t @ [ReadDir]) ''name'' (history_sql db options) of
                        Inl e2 \<Rightarrow> if load_rejects_first fs
                                  then ErrorWithStack ''Can't get migration files: '' err
                                  else e2
                      | Inr _ \<Rightarrow> ErrorWithStack ''Can't get migration files: '' err),
                 t @ [ReadDir, Column ''name'' (history_sql db options), Close]))"
  proof (cases "connect_and_lock db options []")
    case (Pair r t)
    show ?thesis
    proof (cases r)
      case (Inl e)
      with Pair have "prepare db fs options [] = (Inl e, t)"
        by (simp add: prepare_def bind_def)
      from runner_prepare_failed[OF this] Pair Inl show ?thesis by simp
    next
      case (Inr u)
      with Pair have "prepare db fs options [] = load_and_history db fs options t"
        by (simp add: prepare_def bind_def)
      with load_and_history_failed_load[OF assms, of db options t]
      have "runner db fs options =
              (Inl (case column_reply db (t @ [ReadDir]) ''name'' (history_sql db options) of
                      Inl e2 \<Rightarrow> if load_rejects_first fs
                                then ErrorWithStack ''Can't get migration files: '' err
                                else e2
                    | Inr _ \<Rightarrow> ErrorWithStack ''Can't get migration files: '' err),
               (t @ [ReadDir, Column ''name'' (history_sql db options)]) @ [Close])"
        by (intro runner_prepare_failed) simp
      with Pair Inr show ?thesis by simp
    qed
  qed
next
  from issues_connect_and_lock[of db options]
  show p: "prefix (snd (connect_and_lock db options [])) (setup_events db options)"
    by (simp add: issues_def)
  then have "set (snd (connect_and_lock db options [])) \<subseteq> set (setup_events db options)"
    by (rule set_mono_prefix)
  with setup_events_no_ReadDir[of db options]
  show "ReadDir \<notin> set (snd (connect_and_lock db options []))"
    by blast
next
  fix t assume "connect_and_lock db options [] = (Inr (), t)"
  with issues_connect_and_lock[of db options] show "t = setup_events db options"
    by (simp add: issues_def)
next
  fix t assume "connect_and_lock db options [] = (Inr (), t)" and "\<not> opt_noLock options"
  then show "\<exists>t4 row rows. t = t4 @ [Select lock_sql]
                            \<and> select_reply db t4 lock_sql = Inr (row # rows)"
    by (rule connect_and_lock_granted)
qed

lemma example_options_schema_fields:
  "opt_schema example_options_schema = Schema ''app''"
  "opt_createSchema example_options_schema"
  "opt_migrationsSchema example_options_schema = None"
  "\<not> opt_noLock example_options_schema"
  by (simp_all add: example_options_schema_def example_options_def)

lemma example_lock_held_replies:
  "createConnection_reply example_db_lock_held = None"
  "query_reply example_db_lock_held t sql = None"
  "select_reply example_db_lock_held t lock_sql = Inr [[(''lockObtained'', ''false'')]]"
  "sql \<noteq> lock_sql \<Longrightarrow> select_reply example_db_lock_held t sql = Inr []"
  by (simp_all add: example_db_lock_held_def example_db_def)

lemma example_schema_connect_and_lock:
  "connect_and_lock example_db_lock_held example_options_schema [] =
     (Inr (), [Connect, Query ''CREATE SCHEMA IF NOT EXISTS \"app\"'',
               Query ''SET search_path TO \"app\"'',
               Select (table_exists_sql example_options_schema),
               Query (create_table_sql example_db_lock_held example_options_schema),
               Select lock_sql])"
proof -
  have ne: "table_exists_sql example_options_schema \<noteq> lock_sql"
    by (simp add: table_exists_sql_def lock_sql_def)
  show ?thesis
    by (simp add: connect_and_lock_def create_schemas_def create_migrations_schema_def
        ensureMigrationsTable_def lock_def io_defs example_lock_held_replies
        example_options_schema_fields schema_given_def getSchemas_def create_schema_sql_def
        search_path_sql_def ne)
qed

theorem load_failure_follows_setup_witness:
  "runner example_db_lock_held example_missing_directory example_options_schema =
     (Inl (ErrorWithStack ''Can't get migration files: ''
             (Error ''ENOENT: no such file or directory, scandir'')),
      [Connect, Query ''CREATE SCHEMA IF NOT EXISTS \"app\"'',
       Query ''SET search_path TO \"app\"'',
       Select (table_exists_sql example_options_schema),
       Query (create_table_sql example_db_lock_held example_options_schema),
       Select lock_sql,
       ReadDir, Column ''name'' (history_sql example_db_lock_held example_options_schema),
       Close])
   \<and> setup_events example_db_lock_held example_options_schema =
       [Connect, Query ''CREATE SCHEMA IF NOT EXISTS \"app\"'',
        Query ''SET search_path TO \"app\"'',
        Select (table_exists_sql example_options_schema),
        Query (create_table_sql example_db_lock_held example_options_schema),
        Select lock_sql]
   \<and> select_reply example_db_lock_held
         [Connect, Query ''CREATE SCHEMA IF NOT EXISTS \"app\"'',
          Query ''SET search_path TO \"app\"'',
          Select (table_exists_sql example_options_schema),
          Query (create_table_sql example_db_lock_held example_options_schema)]
         lock_sql
       = Inr [[(''lockObtained'', ''false'')]]"
proof -
  have h: "load_reply example_missing_directory =
             Inl (Error ''ENOENT: no such file or directory, scandir'')"
    by (simp add: example_missing_directory_def)
  have c: "column_reply example_db_lock_held t col sql = Inr []" for t col sql
    by (simp add: example_db_lock_held_def example_db_def)
  note inst = load_failure_follows_setup[OF h, of example_db_lock_held example_options_schema]
  from inst[THEN conjunct1] have one:
    "runner example_db_lock_held example_missing_directory example_options_schema =
     (Inl (ErrorWithStack ''Can't get migration files: ''
             (Error ''ENOENT: no such file or directory, scandir'')),
      [Connect, Query ''CREATE SCHEMA IF NOT EXISTS \"app\"'',
       Query ''SET search_path TO \"app\"'',
       Select (table_exists_sql example_options_schema),
       Query (create_table_sql example_db_lock_held example_options_schema),
       Select lock_sql,
       ReadDir, Column ''name'' (history_sql example_db_lock_held example_options_schema),
       Close])"
    by (simp add: example_schema_connect_and_lock c)
  from inst[THEN conjunct2, THEN conjunct2, THEN conjunct2, rule_format,
      OF example_schema_connect_and_lock, THEN conjunct1]
  have two:
    "setup_events example_db_lock_held example_options_schema =
       [Connect, Query ''CREATE SCHEMA IF NOT EXISTS \"app\"'',
        Query ''SET search_path TO \"app\"'',
        Select (table_exists_sql example_options_schema),
        Query (create_table_sql example_db_lock_held example_options_schema),
        Select lock_sql]"
    by simp
  from one two show ?thesis
    by (simp add: example_lock_held_replies)
qed

text \<open>
  C2, as stated, fails: with a missing migrations directory, the history table is looked
  up and created and the advisory-lock query is issued and answered before the directory
  is read and the failure is raised.
\<close>

theorem load_failure_before_lock_counterexample:
  "runner (example_db [''1_a'']) example_missing_directory example_options =
     (Inl (ErrorWithStack ''Can't get migration files: ''
             (Error ''ENOENT: no such file or directory, scandir'')),
      [Connect, Select (table_exists_sql example_options),
       Query (create_table_sql (example_db [''1_a'']) example_options), Select lock_sql,
       ReadDir, Column ''name'' (history_sql (example_db [''1_a'']) example_options), Close])"
proof -
  have "prepare (example_db [''1_a'']) example_missing_directory example_options [] =
     (Inl (ErrorWithStack ''Can't get migration files: ''
             (Error ''ENOENT: no such file or directory, scandir'')),
      [Connect, Select (table_exists_sql example_options),
       Query (create_table_sql (example_db [''1_a'']) example_options), Select lock_sql,
       ReadDir, Column ''name'' (history_sql (example_db [''1_a'']) example_options)])"
    by (simp add: prepare_def bind_def example_connect_and_lock load_and_history_def
        loadMigrations_def getRunMigrations_def db_column_def example_db_replies
        example_missing_directory_def)
  from runner_prepare_failed[OF this] show ?thesis
    by simp
qed

section \<open>Applying the selected migrations\<close>

lemma bind_assoc: "bind (bind m f) g = bind m (\<lambda>x. bind (f x) g)"
  by (auto simp: bind_def fun_eq_iff split: prod.splits sum.splits)

lemma bind_ret: "bind (ret x) f = f x"
  by (simp add: bind_def ret_def)

lemma runMigrations_append:
  "runMigrations db options (xs @ ys) how d =
     bind (runMigrations db options xs how d) (\<lambda>_. runMigrations db options ys how d)"
  by (induction xs) (simp_all add: bind_ret bind_assoc)

lemma runMigrations_failing:
  assumes "runMigrations db options applied Apply d t = (Inr (), t1)"
      and "apply_migration db options m d t1 = (Inl err, t2)"
  shows "runMigrations db options (applied @ m # rest) Apply d t = (Inl err, t2)"
  using assms by (simp add: runMigrations_append bind_def)

lemma runMigrations_failed:
  "runMigrations db options ms Apply d t = (Inl err, t2) \<Longrightarrow>
   \<exists>applied m rest t1. ms = applied @ m # rest
      \<and> runMigrations db options applied Apply d t = (Inr (), t1)
      \<and> apply_migration db options m d t1 = (Inl err, t2)"
proof (induction ms arbitrary: t)
  case Nil
  then show ?case by (simp add: ret_def)
next
  case (Cons m ms)
  obtain r ta where a: "apply_migration db options m d t = (r, ta)"
    by (cases "apply_migration db options m d t")
  show ?case
  proof (cases r)
    case (Inl e)
    with a Cons.prems have "apply_migration db options m d t = (Inl err, t2)"
      by (simp add: bind_def)
    moreover have "runMigrations db options [] Apply d t = (Inr (), t)"
      by (simp add: ret_def)
    ultimately show ?thesis by (metis append_Nil)
  next
    case (Inr u)
    with a Cons.prems have "runMigrations db options ms Apply d ta = (Inl err, t2)"
      by (simp add: bind_def)
    from Cons.IH[OF this] obtain applied m' rest t1 where
      ms: "ms = applied @ m' # rest"
      and ok: "runMigrations db options applied Apply d ta = (Inr (), t1)"
      and bad: "apply_migration db options m' d t1 = (Inl err, t2)"
      by blast
    from a Inr ok have "runMigrations db options (m # applied) Apply d t = (Inr (), t1)"
      by (simp add: bind_def)
    with ms bad show ?thesis by (metis append_Cons)
  qed
qed

lemma runner_selected:
  assumes "select_migrations db fs options [] = (Inr toRun, t0)" and "toRun \<noteq> []"
  shows "runner db fs options =
           (case apply_batch db options toRun (t0 @ announce toRun) of
              (Inl e, t) \<Rightarrow> (Inl e, t @ [Close])
            | (Inr _, t) \<Rightarrow>
                (Inr (map (\<lambda>m. (path m, name m, timestamp m)) toRun), t @ [Close]))"
proof -
  obtain r t where b: "apply_batch db options toRun (t0 @ announce toRun) = (r, t)"
    by (cases "apply_batch db options toRun (t0 @ announce toRun)")
  have "run_selected db options toRun t0 =
          (case r of Inl e \<Rightarrow> Inl e
                   | Inr _ \<Rightarrow> Inr (map (\<lambda>m. (path m, name m, timestamp m)) toRun), t)"
    using assms(2) b[unfolded announce_def]
    by (simp add: run_selected_def bind_def emit_def ret_def log_all_trace comp_def
        split: sum.splits)
  with assms(1) b show ?thesis
    by (simp add: runner_def bind_def split: sum.splits)
qed

lemma apply_batch_single_failure:
  assumes "\<not> opt_fake options" and "opt_singleTransaction options"
      and "query_reply db t ''BEGIN'' = None"
      and "runMigrations db options toRun Apply (opt_direction options) (t @ [Query ''BEGIN''])
             = (Inl err, t2)"
  shows "apply_batch db options toRun t =
           (Inl (case query_reply db (t2 @ [Log ''> Rolling back attempted migration ...''])
                        ''ROLLBACK'' of
                   Some e \<Rightarrow> e | None \<Rightarrow> err),
            t2 @ [Log ''> Rolling back attempted migration ...'', Query ''ROLLBACK''])"
  using assms
  by (simp add: apply_batch_def io_defs split: option.splits)

lemma apply_batch_separate:
  assumes "\<not> opt_fake options" and "\<not> opt_singleTransaction options"
  shows "apply_batch db options toRun t =
           runMigrations db options toRun Apply (opt_direction options) t"
  using assms by (simp add: apply_batch_def)

lemma apply_batch_fake:
  assumes "opt_fake options"
  shows "apply_batch db options toRun t =
           runMigrations db options toRun MarkAsRun (opt_direction options) t"
  using assms by (simp add: apply_batch_def)

lemma wrap_use_transaction:
  "use_transaction (snd (wrap operation args pgm)) = use_transaction pgm"
  by (simp add: wrap_def split: sum.splits option.splits)

lemma run_call_use_transaction:
  "\<not> calls_noTransaction [c] \<Longrightarrow>
   use_transaction (snd (fst (run_call db c pgm t))) = use_transaction pgm"
  by (cases c) (simp_all add: wrap_use_transaction split: prod.splits sum.splits)

lemma calls_noTransaction_Cons:
  "calls_noTransaction (c # cs) = (calls_noTransaction [c] \<or> calls_noTransaction cs)"
  by (cases c) simp_all

lemma run_body_use_transaction:
  "run_body db cs pgm t = ((None, pgm1), t1) \<Longrightarrow>
   use_transaction pgm1 = (use_transaction pgm \<and> \<not> calls_noTransaction cs)"
proof (induction cs arbitrary: pgm t)
  case Nil
  then show ?case by simp
next
  case (Cons c cs)
  obtain e pgm' t' where rc: "run_call db c pgm t = ((e, pgm'), t')"
    by (cases "run_call db c pgm t") auto
  with Cons.prems have e: "e = None" and rb: "run_body db cs pgm' t' = ((None, pgm1), t1)"
    by (cases e; simp)+
  have "use_transaction pgm' = (use_transaction pgm \<and> \<not> calls_noTransaction [c])"
  proof (cases "calls_noTransaction [c]")
    case True
    then have "c = NoTransaction" by (cases c) simp_all
    with rc show ?thesis by (auto simp: noTransaction_def)
  next
    case False
    from run_call_use_transaction[OF False, of db pgm t] rc False show ?thesis by simp
  qed
  with Cons.IH[OF rb] show ?case
    by (subst calls_noTransaction_Cons) auto
qed

lemma run_steps_append:
  "run_steps db options (xs @ ys) =
     bind (run_steps db options xs) (\<lambda>_. run_steps db options ys)"
  by (induction xs) (simp_all add: bind_ret bind_assoc)

lemma run_steps_returned:
  "\<not> opt_dryRun options \<Longrightarrow> run_steps db options ss t = (Inr (), t') \<Longrightarrow>
   t' = t @ map Query ss"
proof (induction ss arbitrary: t)
  case Nil
  then show ?case by (simp add: ret_def)
next
  case (Cons s ss)
  from Cons.prems obtain ta where q: "db_query db s t = (Inr (), ta)"
    and r: "run_steps db options ss ta = (Inr (), t')"
    by (auto simp: bind_def split: prod.splits sum.splits)
  from q have "ta = t @ [Query s]"
    by (auto simp: db_query_def split: option.splits)
  with Cons.IH[OF Cons.prems(1) r] show ?case by simp
qed

lemma run_steps_last_accepted:
  assumes "\<not> opt_dryRun options" and "run_steps db options (ss @ [s]) t = (Inr (), t')"
  shows "query_reply db (butlast t') s = None"
proof -
  from assms obtain ta where a: "run_steps db options ss t = (Inr (), ta)"
    and q: "db_query db s ta = (Inr (), t')"
    by (auto simp: run_steps_append bind_def ret_def split: prod.splits sum.splits)
  from q have "t' = ta @ [Query s]" and "query_reply db ta s = None"
    by (auto simp: db_query_def split: option.splits)
  then show ?thesis by simp
qed

lemma apply_migration_statements:
  assumes "getAction m d = Inr (action, m1)"
      and "run_body db (body action)
             (if strict_equal (down m1) (up m1) then enableReverseMode new_MigrationBuilder
              else new_MigrationBuilder) ta = ((None, pgm1), tb)"
      and "getMarkAsRun options m1 action tb = (Inr mark, tc)"
  shows "isUsingTransaction pgm1 = (\<not> calls_noTransaction (body action))"
    and "reconcile_transaction options pgm1 (getSqlSteps pgm1 @ [mark]) = (warnings, sqlSteps)
         \<Longrightarrow> apply_migration db options m d ta =
               run_steps db options sqlSteps (tc @ map Log warnings @ [sql_log sqlSteps])"
proof -
  from run_body_use_transaction[OF assms(2)]
  show "isUsingTransaction pgm1 = (\<not> calls_noTransaction (body action))"
    by (simp add: isUsingTransaction_def enableReverseMode_def new_MigrationBuilder_def
        split: if_splits)
  assume "reconcile_transaction options pgm1 (getSqlSteps pgm1 @ [mark]) = (warnings, sqlSteps)"
  from apply_action_statements[OF assms(2,3) this] assms(1)
  show "apply_migration db options m d ta =
          run_steps db options sqlSteps (tc @ map Log warnings @ [sql_log sqlSteps])"
    by (simp add: apply_migration_def)
qed

lemma runner_single_failure:
  assumes "select_migrations db fs options [] = (Inr toRun, t0)" and "toRun \<noteq> []"
      and "\<not> opt_fake options" and "opt_singleTransaction options"
      and "query_reply db (t0 @ announce toRun) ''BEGIN'' = None"
      and "runMigrations db options toRun Apply (opt_direction options)
             (t0 @ announce toRun @ [Query ''BEGIN'']) = (Inl err, t2)"
  shows "runner db fs options =
           (Inl (case query_reply db (t2 @ [Log ''> Rolling back attempted migration ...''])
                        ''ROLLBACK'' of
                   Some e \<Rightarrow> e | None \<Rightarrow> err),
            t2 @ [Log ''> Rolling back attempted migration ...'', Query ''ROLLBACK'', Close])"
proof -
  from assms(6)
  have "runMigrations db options toRun Apply (opt_direction options)
          ((t0 @ announce toRun) @ [Query ''BEGIN'']) = (Inl err, t2)"
    by simp
  from apply_batch_single_failure[OF assms(3,4,5) this] runner_selected[OF assms(1,2)]
  show ?thesis by simp
qed

lemma runner_separate_failure:
  assumes "select_migrations db fs options [] = (Inr toRun, t0)" and "toRun \<noteq> []"
      and "\<not> opt_fake options" and "\<not> opt_singleTransaction options"
      and "runMigrations db options toRun Apply (opt_direction options) (t0 @ announce toRun)
             = (Inl err, t2)"
  shows "runner db fs options = (Inl err, t2 @ [Close])"
  using apply_batch_separate[OF assms(3,4), of db toRun "t0 @ announce toRun"]
    runner_selected[OF assms(1,2)] assms(5)
  by simp

lemma runner_fake_failure:
  assumes "select_migrations db fs options [] = (Inr toRun, t0)" and "toRun \<noteq> []"
      and "opt_fake options"
      and "runMigrations db options toRun MarkAsRun (opt_direction options)
             (t0 @ announce toRun) = (Inl err, t2)"
  shows "runner db fs options = (Inl err, t2 @ [Close])"
  using apply_batch_fake[OF assms(3), of db toRun "t0 @ announce toRun"]
    runner_selected[OF assms(1,2)] assms(4)
  by simp

lemma runMigrations_fails_iff:
  "(runMigrations db options ms Apply d t = (Inl err, t2)) =
     (\<exists>applied m rest t1. ms = applied @ m # rest
        \<and> runMigrations db options applied Apply d t = (Inr (), t1)
        \<and> apply_migration db options m d t1 = (Inl err, t2))"
proof
  assume "runMigrations db options ms Apply d t = (Inl err, t2)"
  then show "\<exists>applied m rest t1. ms = applied @ m # rest
        \<and> runMigrations db options applied Apply d t = (Inr (), t1)
        \<and> apply_migration db options m d t1 = (Inl err, t2)"
    by (rule runMigrations_failed)
next
  assume "\<exists>applied m rest t1. ms = applied @ m # rest
        \<and> runMigrations db options applied Apply d t = (Inr (), t1)
        \<and> apply_migration db options m d t1 = (Inl err, t2)"
  then obtain applied m rest t1 where "ms = applied @ m # rest"
    and "runMigrations db options applied Apply d t = (Inr (), t1)"
    and "apply_migration db options m d t1 = (Inl err, t2)"
    by blast
  with runMigrations_failing[of db options applied d t t1 m err t2 rest]
  show "runMigrations db options ms Apply d t = (Inl err, t2)"
    by simp
qed

lemma apply_single_mode:
  assumes h1: "getAction m' d = Inr (action, m1)"
      and h2: "run_body db (body action)
               (if strict_equal (down m1) (up m1) then enableReverseMode new_MigrationBuilder
                else new_MigrationBuilder) ta = ((None, pgm1), tb)"
      and h3: "getMarkAsRun options m1 action tb = (Inr mark, tc)"
      and s: "opt_singleTransaction options"
  shows "apply_migration db options m' d ta =
                 (if calls_noTransaction (body action) then
                    run_steps db options (''COMMIT;'' # getSqlSteps pgm1 @ [mark, ''BEGIN;''])
                      (tc @ [Log ''#> WARNING: Need to break single transaction! <'',
                             sql_log (''COMMIT;'' # getSqlSteps pgm1 @ [mark, ''BEGIN;''])])
                  else
                    run_steps db options (getSqlSteps pgm1 @ [mark])
                      (tc @ [sql_log (getSqlSteps pgm1 @ [mark])]))"
proof (cases "calls_noTransaction (body action)")
  case True
  with apply_migration_statements(1)[OF h1 h2 h3] s
  have "reconcile_transaction options pgm1 (getSqlSteps pgm1 @ [mark]) =
        ([''#> WARNING: Need to break single transaction! <''],
         ''COMMIT;'' # getSqlSteps pgm1 @ [mark, ''BEGIN;''])"
    by (simp add: reconcile_transaction_def)
  from apply_migration_statements(2)[OF h1 h2 h3 this] True show ?thesis
    by (simp del: run_steps.simps)
next
  case False
  with apply_migration_statements(1)[OF h1 h2 h3] s
  have "reconcile_transaction options pgm1 (getSqlSteps pgm1 @ [mark]) =
        ([], getSqlSteps pgm1 @ [mark])"
    by (simp add: reconcile_transaction_def)
  from apply_migration_statements(2)[OF h1 h2 h3 this] False show ?thesis
    by (simp del: run_steps.simps)
qed

lemma apply_separate_mode:
  assumes h1: "getAction m' d = Inr (action, m1)"
      and h2: "run_body db (body action)
               (if strict_equal (down m1) (up m1) then enableReverseMode new_MigrationBuilder
                else new_MigrationBuilder) ta = ((None, pgm1), tb)"
      and h3: "getMarkAsRun options m1 action tb = (Inr mark, tc)"
      and p: "\<not> opt_singleTransaction options" "\<not> opt_dryRun options"
             "\<not> calls_noTransaction (body action)"
             "apply_migration db options m' d ta = (Inr (), td)"
  shows "td = tc @ sql_log (''BEGIN;'' # getSqlSteps pgm1 @ [mark, ''COMMIT;''])
                 # map Query (''BEGIN;'' # getSqlSteps pgm1 @ [mark, ''COMMIT;''])
         \<and> query_reply db (butlast td) ''COMMIT;'' = None"
proof -
  let ?ss = "''BEGIN;'' # getSqlSteps pgm1 @ [mark, ''COMMIT;'']"
  from apply_migration_statements(1)[OF h1 h2 h3] p(1,3)
  have "reconcile_transaction options pgm1 (getSqlSteps pgm1 @ [mark]) = ([], ?ss)"
    by (simp add: reconcile_transaction_def)
  from apply_migration_statements(2)[OF h1 h2 h3 this] p(4)
  have r: "run_steps db options ?ss (tc @ [sql_log ?ss]) = (Inr (), td)"
    by (simp del: run_steps.simps)
  from run_steps_returned[OF p(2) r]
  have shape: "td = tc @ sql_log ?ss # map Query ?ss" by simp
  from r have "run_steps db options ((''BEGIN;'' # getSqlSteps pgm1 @ [mark]) @ [''COMMIT;''])
                 (tc @ [sql_log ?ss]) = (Inr (), td)"
    by (simp del: run_steps.simps)
  from run_steps_last_accepted[OF p(2) this]
  have acc: "query_reply db (butlast td) ''COMMIT;'' = None" .
  show ?thesis by (rule conjI[OF shape acc])
qed

text \<open>
  C7, as the code has it. The runner has selected a non-empty batch.

  Outside fake mode, in single-transaction mode: once the runner's BEGIN is accepted, when
  applying the batch fails the runner logs the rollback, issues ROLLBACK, and only then
  raises the error (the error of the batch, or that of the ROLLBACK when the ROLLBACK is
  rejected too). Outside fake mode, in per-migration mode: when applying the batch fails,
  the error is raised and nothing follows but the closing of the connection. In fake mode,
  whatever the transaction mode: when marking the batch fails, the error is raised and
  nothing follows but the closing of the connection; no ROLLBACK.

  Applying a batch fails exactly when one of its migrations fails after the migrations
  before it were applied; the migrations after it are not attempted.

  For a migration whose body has run and whose mark-as-run statement is chosen: in
  single-transaction mode the statements issued for it are its steps and its mark alone
  when its body does not call \<^verbatim>\<open>noTransaction\<close>, so that the ROLLBACK covers them; when
  the body calls \<^verbatim>\<open>noTransaction\<close>, COMMIT; is issued before them and BEGIN; after
  them, which commits what the batch has done so far. In per-migration mode, outside a dry
  run, a migration that was applied and does not call \<^verbatim>\<open>noTransaction\<close> had BEGIN;, its
  steps, its mark and COMMIT; issued, and the COMMIT; was accepted.
\<close>

theorem failure_in_batch_by_mode:
  assumes "select_migrations db fs options [] = (Inr toRun, t0)"
      and "toRun \<noteq> []"
  shows "(\<not> opt_fake options \<and> opt_singleTransaction options
          \<and> query_reply db (t0 @ announce toRun) ''BEGIN'' = None
          \<and> runMigrations db options toRun Apply (opt_direction options)
                (t0 @ announce toRun @ [Query ''BEGIN'']) = (Inl err, t2) \<longrightarrow>
            runner db fs options =
              (Inl (case query_reply db (t2 @ [Log ''> Rolling back attempted migration ...''])
                           ''ROLLBACK'' of
                      Some e \<Rightarrow> e | None \<Rightarrow> err),
               t2 @ [Log ''> Rolling back attempted migration ...'', Query ''ROLLBACK'', Close]))
       \<and> (\<not> opt_fake options \<and> \<not> opt_singleTransaction options
          \<and> runMigrations db options toRun Apply (opt_direction options) (t0 @ announce toRun)
               = (Inl err, t2) \<longrightarrow>
            runner db fs options = (Inl err, t2 @ [Close]))
       \<and> (opt_fake options
          \<and> runMigrations db options toRun MarkAsRun (opt_direction options)
               (t0 @ announce toRun) = (Inl err, t2) \<longrightarrow>
            runner db fs options = (Inl err, t2 @ [Close]))
       \<and> ((runMigrations db options ms Apply d t = (Inl err, t2)) =
            (\<exists>applied m rest t1. ms = applied @ m # rest
               \<and> runMigrations db options applied Apply d t = (Inr (), t1)
               \<and> apply_migration db options m d t1 = (Inl err, t2)))
       \<and> (getAction m' d = Inr (action, m1)
          \<and> run_body db (body action)
               (if strict_equal (down m1) (up m1) then enableReverseMode new_MigrationBuilder
                else new_MigrationBuilder) ta = ((None, pgm1), tb)
          \<and> getMarkAsRun options m1 action tb = (Inr mark, tc) \<longrightarrow>
            (opt_singleTransaction options \<longrightarrow>
               apply_migration db options m' d ta =
                 (if calls_noTransaction (body action) then
                    run_steps db options (''COMMIT;'' # getSqlSteps pgm1 @ [mark, ''BEGIN;''])
                      (tc @ [Log ''#> WARNING: Need to break single transaction! <'',
                             sql_log (''COMMIT;'' # getSqlSteps pgm1 @ [mark, ''BEGIN;''])])
                  else
                    run_steps db options (getSqlSteps pgm1 @ [mark])
                      (tc @ [sql_log (getSqlSteps pgm1 @ [mark])])))
          \<and> (\<not> opt_singleTransaction options \<and> \<not> opt_dryRun options
              \<and> \<not> calls_noTransaction (body action)
              \<and> apply_migration db options m' d ta = (Inr (), td) \<longrightarrow>
                td = tc @ sql_log (''BEGIN;'' # getSqlSteps pgm1 @ [mark, ''COMMIT;''])
                          # map Query (''BEGIN;'' # getSqlSteps pgm1 @ [mark, ''COMMIT;''])
                \<and> query_reply db (butlast td) ''COMMIT;'' = None))"
proof -
  have c1: "\<not> opt_fake options \<and> opt_singleTransaction options
          \<and> query_reply db (t0 @ announce toRun) ''BEGIN'' = None
          \<and> runMigrations db options toRun Apply (opt_direction options)
                (t0 @ announce toRun @ [Query ''BEGIN'']) = (Inl err, t2) \<longrightarrow>
            runner db fs options =
              (Inl (case query_reply db (t2 @ [Log ''> Rolling back attempted migration ...''])
                           ''ROLLBACK'' of
                      Some e \<Rightarrow> e | None \<Rightarrow> err),
               t2 @ [Log ''> Rolling back attempted migration ...'', Query ''ROLLBACK'', Close])"
  proof
    assume h: "\<not> opt_fake options \<and> opt_singleTransaction options
          \<and> query_reply db (t0 @ announce toRun) ''BEGIN'' = None
          \<and> runMigrations db options toRun Apply (opt_direction options)
                (t0 @ announce toRun @ [Query ''BEGIN'']) = (Inl err, t2)"
    show "runner db fs options =
              (Inl (case query_reply db (t2 @ [Log ''> Rolling back attempted migration ...''])
                           ''ROLLBACK'' of
                      Some e \<Rightarrow> e | None \<Rightarrow> err),
               t2 @ [Log ''> Rolling back attempted migration ...'', Query ''ROLLBACK'', Close])"
      by (rule runner_single_failure[OF assms h[THEN conjunct1]
            h[THEN conjunct2, THEN conjunct1]
            h[THEN conjunct2, THEN conjunct2, THEN conjunct1]
            h[THEN conjunct2, THEN conjunct2, THEN conjunct2]])
  qed
  have c2: "\<not> opt_fake options \<and> \<not> opt_singleTransaction options
          \<and> runMigrations db options toRun Apply (opt_direction options) (t0 @ announce toRun)
               = (Inl err, t2) \<longrightarrow>
            runner db fs options = (Inl err, t2 @ [Close])"
  proof
    assume h: "\<not> opt_fake options \<and> \<not> opt_singleTransaction options
          \<and> runMigrations db options toRun Apply (opt_direction options) (t0 @ announce toRun)
               = (Inl err, t2)"
    show "runner db fs options = (Inl err, t2 @ [Close])"
      by (rule runner_separate_failure[OF assms h[THEN conjunct1]
            h[THEN conjunct2, THEN conjunct1] h[THEN conjunct2, THEN conjunct2]])
  qed
  have c3: "opt_fake options
          \<and> runMigrations db options toRun MarkAsRun (opt_direction options)
               (t0 @ announce toRun) = (Inl err, t2) \<longrightarrow>
            runner db fs options = (Inl err, t2 @ [Close])"
  proof
    assume h: "opt_fake options
          \<and> runMigrations db options toRun MarkAsRun (opt_direction options)
               (t0 @ announce toRun) = (Inl err, t2)"
    show "runner db fs options = (Inl err, t2 @ [Close])"
      by (rule runner_fake_failure[OF assms h[THEN conjunct1] h[THEN conjunct2]])
  qed
  note c4 = runMigrations_fails_iff[of db options ms d t err t2]
  have c5: "getAction m' d = Inr (action, m1)
          \<and> run_body db (body action)
               (if strict_equal (down m1) (up m1) then enableReverseMode new_MigrationBuilder
                else new_MigrationBuilder) ta = ((None, pgm1), tb)
          \<and> getMarkAsRun options m1 action tb = (Inr mark, tc) \<longrightarrow>
            (opt_singleTransaction options \<longrightarrow>
               apply_migration db options m' d ta =
                 (if calls_noTransaction (body action) then
                    run_steps db options (''COMMIT;'' # getSqlSteps pgm1 @ [mark, ''BEGIN;''])
                      (tc @ [Log ''#> WARNING: Need to break single transaction! <'',
                             sql_log (''COMMIT;'' # getSqlSteps pgm1 @ [mark, ''BEGIN;''])])
                  else
                    run_steps db options (getSqlSteps pgm1 @ [mark])
                      (tc @ [sql_log (getSqlSteps pgm1 @ [mark])])))
          \<and> (\<not> opt_singleTransaction options \<and> \<not> opt_dryRun options
              \<and> \<not> calls_noTransaction (body action)
              \<and> apply_migration db options m' d ta = (Inr (), td) \<longrightarrow>
                td = tc @ sql_log (''BEGIN;'' # getSqlSteps pgm1 @ [mark, ''COMMIT;''])
                          # map Query (''BEGIN;'' # getSqlSteps pgm1 @ [mark, ''COMMIT;''])
                \<and> query_reply db (butlast td) ''COMMIT;'' = None)"
  proof (intro impI conjI)
    assume h: "getAction m' d = Inr (action, m1)
          \<and> run_body db (body action)
               (if strict_equal (down m1) (up m1) then enableReverseMode new_MigrationBuilder
                else new_MigrationBuilder) ta = ((None, pgm1), tb)
          \<and> getMarkAsRun options m1 action tb = (Inr mark, tc)"
    note h1 = h[THEN conjunct1] and h2 = h[THEN conjunct2, THEN conjunct1]
      and h3 = h[THEN conjunct2, THEN conjunct2]
    {
      assume s: "opt_singleTransaction options"
      show "apply_migration db options m' d ta =
                 (if calls_noTransaction (body action) then
                    run_steps db options (''COMMIT;'' # getSqlSteps pgm1 @ [mark, ''BEGIN;''])
                      (tc @ [Log ''#> WARNING: Need to break single transaction! <'',
                             sql_log (''COMMIT;'' # getSqlSteps pgm1 @ [mark, ''BEGIN;''])])
                  else
                    run_steps db options (getSqlSteps pgm1 @ [mark])
                      (tc @ [sql_log (getSqlSteps pgm1 @ [mark])]))"
        by (rule apply_single_mode[OF h1 h2 h3 s])
    }
    assume p: "\<not> opt_singleTransaction options \<and> \<not> opt_dryRun options
              \<and> \<not> calls_noTransaction (body action)
              \<and> apply_migration db options m' d ta = (Inr (), td)"
    note both = apply_separate_mode[OF h1 h2 h3 p[THEN conjunct1]
        p[THEN conjunct2, THEN conjunct1] p[THEN conjunct2, THEN conjunct2, THEN conjunct1]
        p[THEN conjunct2, THEN conjunct2, THEN conjunct2]]
    from both show "td = tc @ sql_log (''BEGIN;'' # getSqlSteps pgm1 @ [mark, ''COMMIT;''])
                          # map Query (''BEGIN;'' # getSqlSteps pgm1 @ [mark, ''COMMIT;''])"
      by (rule conjunct1)
    from both show "query_reply db (butlast td) ''COMMIT;'' = None"
      by (rule conjunct2)
  qed
  show ?thesis
    by (rule conjI[OF c1 conjI[OF c2 conjI[OF c3 conjI[OF c4 c5]]]])
qed

lemma example_rejecting_replies:
  "createConnection_reply (example_db_rejecting h bad) = None"
  "query_reply (example_db_rejecting h bad) t sql =
     (if sql = bad then Some (Error ''syntax error'') else None)"
  "select_reply (example_db_rejecting h bad) t sql =
     (if sql = lock_sql then Inr [[(''lockObtained'', ''true'')]] else Inr [])"
  "column_reply (example_db_rejecting h bad) t col sql = Inr h"
  "decamelize_fn (example_db_rejecting h bad) = (\<lambda>s. s)"
  by (simp_all add: example_db_rejecting_def example_db_def)

lemma example_options_fake_fields:
  "opt_schema example_options_fake = NoSchema"
  "opt_migrationsSchema example_options_fake = None"
  "\<not> opt_noLock example_options_fake"
  "opt_checkOrder example_options_fake"
  "opt_fake example_options_fake"
  "\<not> opt_dryRun example_options_fake"
  "opt_singleTransaction example_options_fake"
  "\<not> opt_timestamp example_options_fake"
  "opt_direction example_options_fake = Up"
  "opt_count example_options_fake = None"
  "opt_file example_options_fake = None"
  by (simp_all add: example_options_fake_def example_options_def)

lemma fresh_connect_and_lock:
  assumes "createConnection_reply db = None"
      and "opt_schema options = NoSchema"
      and "opt_migrationsSchema options = None"
      and "\<not> opt_noLock options"
      and "\<And>t sql. select_reply db t sql =
             (if sql = lock_sql then Inr [[(''lockObtained'', ''true'')]] else Inr [])"
      and "\<And>t. query_reply db t (create_table_sql db options) = None"
  shows "connect_and_lock db options [] =
           (Inr (), [Connect, Select (table_exists_sql options),
                     Query (create_table_sql db options), Select lock_sql])"
proof -
  have ne: "table_exists_sql options \<noteq> lock_sql"
    by (simp add: table_exists_sql_def lock_sql_def)
  show ?thesis
    using assms(1-4)
    by (simp add: connect_and_lock_def create_schemas_def create_migrations_schema_def
        ensureMigrationsTable_def lock_def io_defs assms(5,6) schema_given_def ne)
qed

lemma example_create_table_sql:
  assumes "opt_schema options = NoSchema" and "opt_migrationsSchema options = None"
  shows "create_table_sql (example_db_rejecting h bad) options =
           ''CREATE TABLE \"public\".\"'' @ opt_migrationsTable options
           @ ''\" ( id SERIAL PRIMARY KEY, name varchar(255) NOT NULL, run_on timestamp NOT NULL)''"
  using assms
  by (simp add: create_table_sql_def fullTableName_def createSchemalize_def quote_def
      getMigrationTableSchema_def getSchemas_def example_rejecting_replies)

lemma example_select:
  assumes "opt_schema options = NoSchema" and "opt_migrationsSchema options = None"
      and "\<not> opt_noLock options"
      and "create_table_sql (example_db_rejecting h bad) options \<noteq> bad"
      and "checkOrder h ms = None"
      and "getMigrationsToRun options h ms = Inr toRun"
  shows "select_migrations (example_db_rejecting h bad) (example_loader ms) options [] =
         (Inr toRun, example_setup_trace (example_db_rejecting h bad) options)"
proof -
  let ?db = "example_db_rejecting h bad"
  have "connect_and_lock ?db options [] =
          (Inr (), [Connect, Select (table_exists_sql options),
                    Query (create_table_sql ?db options), Select lock_sql])"
    using assms(1-4)
    by (intro fresh_connect_and_lock) (simp_all add: example_rejecting_replies)
  then have "prepare ?db (example_loader ms) options [] =
          (Inr (ms, h), example_setup_trace ?db options)"
    by (simp add: prepare_def bind_def load_and_history_def loadMigrations_def
        getRunMigrations_def db_column_def example_rejecting_replies example_loader_def
        example_setup_trace_def)
  then show ?thesis
    by (simp add: select_migrations_def bind_def ret_def lift_def assms(5,6))
qed

lemma example_pending:
  assumes "opt_direction options = Up" and "opt_count options = None"
      and "\<not> opt_timestamp options" and "opt_file options = None"
  shows "getMigrationsToRun options [''1_a''] [example_A, example_B, example_C] =
           Inr [example_B, example_C]"
    and "getMigrationsToRun options [''1_a''] [example_A, example_B, example_E] =
           Inr [example_B, example_E]"
  using assms
  by (simp_all add: getMigrationsToRun_def slice_def file_matches_def example_A_def
      example_B_def example_C_def example_E_def example_migration_def)

lemma example_order_kept:
  "checkOrder [''1_a''] [example_A, example_B, example_C] = None"
  "checkOrder [''1_a''] [example_A, example_B, example_E] = None"
  unfolding checkOrder_def
  by (rule checkOrder_loop_agree, simp add: example_A_def example_migration_def)+

lemma example_apply_up:
  "apply_migration db options (example_migration n ts ref tbl) Up t =
     (let sqlSteps = (if opt_singleTransaction options
                      then [''CREATE TABLE '' @ tbl @ '';'', insert_statement options n]
                      else [''BEGIN;'', ''CREATE TABLE '' @ tbl @ '';'',
                            insert_statement options n, ''COMMIT;''])
      in run_steps db options sqlSteps
           (t @ [Log (''### MIGRATION '' @ n @ '' (UP) ###''), sql_log sqlSteps]))"
proof -
  let ?m = "example_migration n ts ref tbl"
  let ?a = "\<lparr>fn_ref = ref, body = [Operation example_createTable tbl]\<rparr>"
  let ?pgm1 = "\<lparr>steps = [''CREATE TABLE '' @ tbl @ '';''], REVERSE_MODE = False,
                use_transaction = True\<rparr>"
  let ?sqlSteps = "if opt_singleTransaction options
                   then [''CREATE TABLE '' @ tbl @ '';'', insert_statement options n]
                   else [''BEGIN;'', ''CREATE TABLE '' @ tbl @ '';'',
                         insert_statement options n, ''COMMIT;'']"
  have ap: "apply_migration db options ?m Up t =
              apply_action db options ?m ?a new_MigrationBuilder t"
    by (simp add: apply_migration_def getAction_def example_migration_def)
  have rb: "run_body db (body ?a) new_MigrationBuilder t = ((None, ?pgm1), t)"
    by (simp add: wrap_def example_createTable_def new_MigrationBuilder_def)
  have mk: "getMarkAsRun options ?m ?a t =
              (Inr (insert_statement options n),
               t @ [Log (''### MIGRATION '' @ n @ '' (UP) ###'')])"
    using getMarkAsRun_up[of ?a ?m options t] by (simp add: example_migration_def)
  have rt: "reconcile_transaction options ?pgm1 (getSqlSteps ?pgm1 @ [insert_statement options n])
              = ([], ?sqlSteps)"
    by (simp add: reconcile_transaction_def isUsingTransaction_def getSqlSteps_def)
  from apply_action_statements[OF rb mk rt] show ?thesis
    unfolding ap by (simp add: Let_def)
qed

lemma example_mark_up:
  "markAsRun db options (example_migration n ts ref tbl) Up t =
     db_query db (insert_statement options n)
       (t @ [Log (''### MIGRATION '' @ n @ '' (UP) ###'')])"
proof -
  let ?m = "example_migration n ts ref tbl"
  let ?a = "\<lparr>fn_ref = ref, body = [Operation example_createTable tbl]\<rparr>"
  have mk: "getMarkAsRun options ?m ?a t =
              (Inr (insert_statement options n),
               t @ [Log (''### MIGRATION '' @ n @ '' (UP) ###'')])"
    using getMarkAsRun_up[of ?a ?m options t] by (simp add: example_migration_def)
  then show ?thesis
    by (simp add: markAsRun_def getAction_def example_migration_def bind_def)
qed

lemma example_E_parts:
  "getAction example_E Up = Inr (example_no_transaction, example_E)"
  "\<not> strict_equal (down example_E) (up example_E)"
  "run_body db (body example_no_transaction) new_MigrationBuilder t =
     ((None, \<lparr>steps = [''VACUUM;''], REVERSE_MODE = False, use_transaction = False\<rparr>), t)"
  "getMarkAsRun options example_E example_no_transaction t =
     (Inr (insert_statement options ''5_e''), t @ [Log ''### MIGRATION 5_e (UP) ###''])"
  "calls_noTransaction (body example_no_transaction)"
  using getMarkAsRun_up[of example_no_transaction example_E options t]
  by (simp_all add: example_E_def getAction_def example_no_transaction_def example_sql_def
      other_sql_def wrap_def new_MigrationBuilder_def noTransaction_def)

lemma example_B_parts:
  "getAction example_B Up =
     Inr (\<lparr>fn_ref = 12, body = [Operation example_createTable ''tb'']\<rparr>, example_B)"
  "\<not> strict_equal (down example_B) (up example_B)"
  "run_body db [Operation example_createTable ''tb''] new_MigrationBuilder t =
     ((None, \<lparr>steps = [''CREATE TABLE tb;''], REVERSE_MODE = False, use_transaction = True\<rparr>),
      t)"
  "getMarkAsRun options example_B \<lparr>fn_ref = 12, body = [Operation example_createTable ''tb'']\<rparr> t =
     (Inr (insert_statement options ''2_b''), t @ [Log ''### MIGRATION 2_b (UP) ###''])"
  using getMarkAsRun_up[of "\<lparr>fn_ref = 12, body = [Operation example_createTable ''tb'']\<rparr>"
      example_B options t]
  by (simp_all add: example_B_def example_migration_def getAction_def example_createTable_def
      wrap_def new_MigrationBuilder_def)

lemma example_statements_differ:
  "insert_statement options n \<noteq> ''CREATE TABLE tc;''"
  "insert_statement options n \<noteq> ''VACUUM;''"
  "insert_statement options n \<noteq> ''BEGIN;''"
  "insert_statement options n \<noteq> ''COMMIT;''"
  "insert_statement options ''2_b'' \<noteq> insert_statement options ''3_c''"
  by (simp_all add: insert_statement_def)

lemma example_run_separate:
  assumes "\<not> opt_singleTransaction options" and "\<not> opt_dryRun options"
  shows "apply_migration (example_db_rejecting h ''CREATE TABLE tc;'') options example_B Up t =
           (Inr (),
            t @ [Log ''### MIGRATION 2_b (UP) ###'',
                 sql_log [''BEGIN;'', ''CREATE TABLE tb;'', insert_statement options ''2_b'',
                          ''COMMIT;''],
                 Query ''BEGIN;'', Query ''CREATE TABLE tb;'',
                 Query (insert_statement options ''2_b''), Query ''COMMIT;''])"
    and "apply_migration (example_db_rejecting h ''CREATE TABLE tc;'') options example_C Up t =
           (Inl (Error ''syntax error''),
            t @ [Log ''### MIGRATION 3_c (UP) ###'',
                 sql_log [''BEGIN;'', ''CREATE TABLE tc;'', insert_statement options ''3_c'',
                          ''COMMIT;''],
                 Query ''BEGIN;'', Query ''CREATE TABLE tc;''])"
  using assms
  by (simp_all add: example_B_def example_C_def example_apply_up Let_def io_defs
      example_rejecting_replies example_statements_differ)

lemma example_run_single:
  assumes "opt_singleTransaction options" and "\<not> opt_dryRun options"
  shows "runMigrations (example_db_rejecting h ''CREATE TABLE tc;'') options
           [example_B, example_C] Apply Up t =
           (Inl (Error ''syntax error''),
            t @ [Log ''### MIGRATION 2_b (UP) ###'',
                 sql_log [''CREATE TABLE tb;'', insert_statement options ''2_b''],
                 Query ''CREATE TABLE tb;'', Query (insert_statement options ''2_b''),
                 Log ''### MIGRATION 3_c (UP) ###'',
                 sql_log [''CREATE TABLE tc;'', insert_statement options ''3_c''],
                 Query ''CREATE TABLE tc;''])"
  using assms
  by (simp add: example_B_def example_C_def example_apply_up Let_def io_defs
      example_rejecting_replies example_statements_differ)

lemma example_run_fake:
  "runMigrations (example_db_rejecting h (insert_statement options ''3_c'')) options
     [example_B, example_C] MarkAsRun Up t =
     (Inl (Error ''syntax error''),
      t @ [Log ''### MIGRATION 2_b (UP) ###'', Query (insert_statement options ''2_b''),
           Log ''### MIGRATION 3_c (UP) ###'', Query (insert_statement options ''3_c'')])"
  by (simp add: example_B_def example_C_def example_mark_up io_defs example_rejecting_replies
      example_statements_differ)

lemma example_apply_E:
  assumes "opt_singleTransaction options"
  shows "apply_migration db options example_E Up t =
           run_steps db options
             [''COMMIT;'', ''VACUUM;'', insert_statement options ''5_e'', ''BEGIN;'']
             (t @ [Log ''### MIGRATION 5_e (UP) ###'',
                   Log ''#> WARNING: Need to break single transaction! <'',
                   sql_log [''COMMIT;'', ''VACUUM;'', insert_statement options ''5_e'',
                            ''BEGIN;'']])"
proof -
  have rb: "run_body db (body example_no_transaction)
              (if strict_equal (down example_E) (up example_E)
               then enableReverseMode new_MigrationBuilder else new_MigrationBuilder) t =
            ((None, \<lparr>steps = [''VACUUM;''], REVERSE_MODE = False, use_transaction = False\<rparr>), t)"
    by (simp add: example_E_parts)
  from apply_single_mode[OF example_E_parts(1) rb example_E_parts(4) assms]
  show ?thesis
    by (simp del: run_steps.simps add: example_E_parts(5) getSqlSteps_def)
qed

lemma example_run_broken:
  assumes "opt_singleTransaction options" and "\<not> opt_dryRun options"
  shows "runMigrations (example_db_rejecting h ''VACUUM;'') options
           [example_B, example_E] Apply Up t =
           (Inl (Error ''syntax error''),
            t @ [Log ''### MIGRATION 2_b (UP) ###'',
                 sql_log [''CREATE TABLE tb;'', insert_statement options ''2_b''],
                 Query ''CREATE TABLE tb;'', Query (insert_statement options ''2_b''),
                 Log ''### MIGRATION 5_e (UP) ###'',
                 Log ''#> WARNING: Need to break single transaction! <'',
                 sql_log [''COMMIT;'', ''VACUUM;'', insert_statement options ''5_e'',
                          ''BEGIN;''],
                 Query ''COMMIT;'', Query ''VACUUM;''])"
  using assms
  by (simp add: example_B_def example_apply_up example_apply_E Let_def io_defs
      example_rejecting_replies example_statements_differ)

lemma example_announce:
  "announce [example_B, example_C] =
     [Log ''> Migrating files:'', Log ''> - 2_b'', Log ''> - 3_c'']"
  "announce [example_B, example_E] =
     [Log ''> Migrating files:'', Log ''> - 2_b'', Log ''> - 5_e'']"
  by (simp_all add: announce_def example_B_def example_C_def example_E_def
      example_migration_def)

theorem failure_in_batch_by_mode_witness:
  "runner (example_db_rejecting [''1_a''] ''CREATE TABLE tc;'')
     (example_loader [example_A, example_B, example_C]) example_options_single =
     (Inl (Error ''syntax error''),
      example_setup_trace (example_db_rejecting [''1_a''] ''CREATE TABLE tc;'')
        example_options_single
      @ [Log ''> Migrating files:'', Log ''> - 2_b'', Log ''> - 3_c'', Query ''BEGIN'',
         Log ''### MIGRATION 2_b (UP) ###'',
         sql_log [''CREATE TABLE tb;'', insert_statement example_options_single ''2_b''],
         Query ''CREATE TABLE tb;'', Query (insert_statement example_options_single ''2_b''),
         Log ''### MIGRATION 3_c (UP) ###'',
         sql_log [''CREATE TABLE tc;'', insert_statement example_options_single ''3_c''],
         Query ''CREATE TABLE tc;'',
         Log ''> Rolling back attempted migration ...'', Query ''ROLLBACK'', Close])
   \<and> apply_migration (example_db_rejecting [''1_a''] ''CREATE TABLE tc;'')
       example_options_single example_E Up [] =
     (Inr (),
      [Log ''### MIGRATION 5_e (UP) ###'',
       Log ''#> WARNING: Need to break single transaction! <'',
       sql_log [''COMMIT;'', ''VACUUM;'', insert_statement example_options_single ''5_e'',
                ''BEGIN;''],
       Query ''COMMIT;'', Query ''VACUUM;'',
       Query (insert_statement example_options_single ''5_e''), Query ''BEGIN;''])
   \<and> runner (example_db_rejecting [''1_a''] ''CREATE TABLE tc;'')
       (example_loader [example_A, example_B, example_C]) example_options =
     (Inl (Error ''syntax error''),
      example_setup_trace (example_db_rejecting [''1_a''] ''CREATE TABLE tc;'') example_options
      @ [Log ''> Migrating files:'', Log ''> - 2_b'', Log ''> - 3_c'',
         Log ''### MIGRATION 2_b (UP) ###'',
         sql_log [''BEGIN;'', ''CREATE TABLE tb;'', insert_statement example_options ''2_b'',
                  ''COMMIT;''],
         Query ''BEGIN;'', Query ''CREATE TABLE tb;'',
         Query (insert_statement example_options ''2_b''), Query ''COMMIT;'',
         Log ''### MIGRATION 3_c (UP) ###'',
         sql_log [''BEGIN;'', ''CREATE TABLE tc;'', insert_statement example_options ''3_c'',
                  ''COMMIT;''],
         Query ''BEGIN;'', Query ''CREATE TABLE tc;'', Close])
   \<and> query_reply (example_db_rejecting [''1_a''] ''CREATE TABLE tc;'')
       (example_setup_trace (example_db_rejecting [''1_a''] ''CREATE TABLE tc;'') example_options
        @ [Log ''> Migrating files:'', Log ''> - 2_b'', Log ''> - 3_c'',
           Log ''### MIGRATION 2_b (UP) ###'',
           sql_log [''BEGIN;'', ''CREATE TABLE tb;'', insert_statement example_options ''2_b'',
                    ''COMMIT;''],
           Query ''BEGIN;'', Query ''CREATE TABLE tb;'',
           Query (insert_statement example_options ''2_b'')])
       ''COMMIT;'' = None
   \<and> runner (example_db_rejecting [''1_a''] (insert_statement example_options_fake ''3_c''))
       (example_loader [example_A, example_B, example_C]) example_options_fake =
     (Inl (Error ''syntax error''),
      example_setup_trace
        (example_db_rejecting [''1_a''] (insert_statement example_options_fake ''3_c''))
        example_options_fake
      @ [Log ''> Migrating files:'', Log ''> - 2_b'', Log ''> - 3_c'',
         Log ''### MIGRATION 2_b (UP) ###'',
         Query (insert_statement example_options_fake ''2_b''),
         Log ''### MIGRATION 3_c (UP) ###'',
         Query (insert_statement example_options_fake ''3_c''), Close])"
proof -
  let ?db = "example_db_rejecting [''1_a''] ''CREATE TABLE tc;''"
  let ?fs = "example_loader [example_A, example_B, example_C]"
  let ?toRun = "[example_B, example_C]"
  let ?aB = "\<lparr>fn_ref = 12, body = [Operation example_createTable ''tb'']\<rparr>"
  let ?pB = "\<lparr>steps = [''CREATE TABLE tb;''], REVERSE_MODE = False, use_transaction = True\<rparr>"
  let ?pE = "\<lparr>steps = [''VACUUM;''], REVERSE_MODE = False, use_transaction = False\<rparr>"
  note ann = example_announce(1)
  have nonempty: "?toRun \<noteq> []" by simp
  text \<open>One global transaction.\<close>
  let ?t0 = "example_setup_trace ?db example_options_single"
  let ?t2 = "?t0 @ announce ?toRun @ [Query ''BEGIN'']
             @ [Log ''### MIGRATION 2_b (UP) ###'',
                sql_log [''CREATE TABLE tb;'', insert_statement example_options_single ''2_b''],
                Query ''CREATE TABLE tb;'',
                Query (insert_statement example_options_single ''2_b''),
                Log ''### MIGRATION 3_c (UP) ###'',
                sql_log [''CREATE TABLE tc;'', insert_statement example_options_single ''3_c''],
                Query ''CREATE TABLE tc;'']"
  have ne1: "create_table_sql ?db example_options_single \<noteq> ''CREATE TABLE tc;''"
    by (simp add: example_create_table_sql example_options_single_fields)
  have sel1: "select_migrations ?db ?fs example_options_single [] = (Inr ?toRun, ?t0)"
    by (rule example_select[OF example_options_single_fields(1,2,3) ne1 example_order_kept(1)
          example_pending(1)[OF example_options_single_fields(9,10,8,11)]])
  have run1: "runMigrations ?db example_options_single ?toRun Apply
                (opt_direction example_options_single) (?t0 @ announce ?toRun @ [Query ''BEGIN''])
              = (Inl (Error ''syntax error''), ?t2)"
    using example_run_single[of example_options_single "[''1_a'']"
        "?t0 @ announce ?toRun @ [Query ''BEGIN'']"]
    by (simp add: example_options_single_fields)
  have bodyE: "run_body ?db (body example_no_transaction)
                 (if strict_equal (down example_E) (up example_E)
                  then enableReverseMode new_MigrationBuilder else new_MigrationBuilder) []
               = ((None, ?pE), [])"
    by (simp add: example_E_parts)
  note inst1 = failure_in_batch_by_mode[OF sel1 nonempty,
      where err = "Error ''syntax error''" and ?t2.0 = ?t2 and ms = "[]" and d = Up
        and t = "[]" and m' = example_E and action = example_no_transaction
        and ?m1.0 = example_E and ta = "[]" and ?pgm1.0 = ?pE and tb = "[]"
        and mark = "insert_statement example_options_single ''5_e''"
        and tc = "[Log ''### MIGRATION 5_e (UP) ###'']" and td = "[]"]
  from inst1 run1 example_options_single_fields(5,7)
  have one: "runner ?db ?fs example_options_single =
               (Inl (Error ''syntax error''),
                ?t2 @ [Log ''> Rolling back attempted migration ...'', Query ''ROLLBACK'', Close])"
    by (simp add: example_rejecting_replies)
  from inst1 bodyE example_E_parts(1,5)
    example_E_parts(4)[of example_options_single "[]"] example_options_single_fields(7)
  have "apply_migration ?db example_options_single example_E Up [] =
          run_steps ?db example_options_single
            (''COMMIT;'' # getSqlSteps ?pE
             @ [insert_statement example_options_single ''5_e'', ''BEGIN;''])
            ([Log ''### MIGRATION 5_e (UP) ###'']
             @ [Log ''#> WARNING: Need to break single transaction! <'',
                sql_log (''COMMIT;'' # getSqlSteps ?pE
                         @ [insert_statement example_options_single ''5_e'', ''BEGIN;''])])"
    by (simp del: run_steps.simps)
  then have four: "apply_migration ?db example_options_single example_E Up [] =
     (Inr (),
      [Log ''### MIGRATION 5_e (UP) ###'',
       Log ''#> WARNING: Need to break single transaction! <'',
       sql_log [''COMMIT;'', ''VACUUM;'', insert_statement example_options_single ''5_e'',
                ''BEGIN;''],
       Query ''COMMIT;'', Query ''VACUUM;'',
       Query (insert_statement example_options_single ''5_e''), Query ''BEGIN;''])"
    by (simp add: getSqlSteps_def io_defs example_rejecting_replies
        example_statements_differ example_options_single_fields)
  text \<open>One transaction per migration.\<close>
  let ?u0 = "example_setup_trace ?db example_options"
  let ?ua = "?u0 @ announce ?toRun"
  let ?uc = "?ua @ [Log ''### MIGRATION 2_b (UP) ###'']"
  let ?u1 = "?ua
             @ [Log ''### MIGRATION 2_b (UP) ###'',
                sql_log [''BEGIN;'', ''CREATE TABLE tb;'',
                         insert_statement example_options ''2_b'', ''COMMIT;''],
                Query ''BEGIN;'', Query ''CREATE TABLE tb;'',
                Query (insert_statement example_options ''2_b''), Query ''COMMIT;'']"
  let ?u2 = "?u1 @ [Log ''### MIGRATION 3_c (UP) ###'',
                    sql_log [''BEGIN;'', ''CREATE TABLE tc;'',
                             insert_statement example_options ''3_c'', ''COMMIT;''],
                    Query ''BEGIN;'', Query ''CREATE TABLE tc;'']"
  have ne2: "create_table_sql ?db example_options \<noteq> ''CREATE TABLE tc;''"
    by (simp add: example_create_table_sql example_options_fields)
  have sel2: "select_migrations ?db ?fs example_options [] = (Inr ?toRun, ?u0)"
    by (rule example_select[OF example_options_fields(1,2,3) ne2 example_order_kept(1)
          example_pending(1)[OF example_options_fields(9,10,8,11)]])
  have appliedB: "apply_migration ?db example_options example_B Up ?ua = (Inr (), ?u1)"
    using example_run_separate(1)[of example_options "[''1_a'']" ?ua]
    by (simp add: example_options_fields)
  then have applied: "runMigrations ?db example_options [example_B] Apply Up ?ua = (Inr (), ?u1)"
    by (simp add: bind_def ret_def)
  have failing: "apply_migration ?db example_options example_C Up ?u1
                   = (Inl (Error ''syntax error''), ?u2)"
    using example_run_separate(2)[of example_options "[''1_a'']" ?u1]
    by (simp add: example_options_fields)
  have bodyB: "run_body ?db (body ?aB)
                 (if strict_equal (down example_B) (up example_B)
                  then enableReverseMode new_MigrationBuilder else new_MigrationBuilder) ?ua
               = ((None, ?pB), ?ua)"
    using example_B_parts(3)[of ?db ?ua] by (simp add: example_B_parts(2))
  have markB: "getMarkAsRun example_options example_B ?aB ?ua =
                 (Inr (insert_statement example_options ''2_b''), ?uc)"
    using example_B_parts(4)[of example_options ?ua] by simp
  note inst2 = failure_in_batch_by_mode[OF sel2 nonempty,
      where err = "Error ''syntax error''" and ?t2.0 = ?u2 and ms = ?toRun and d = Up
        and t = ?ua and m' = example_B and action = ?aB
        and ?m1.0 = example_B and ta = ?ua and ?pgm1.0 = ?pB and tb = ?ua
        and mark = "insert_statement example_options ''2_b''"
        and tc = ?uc and td = ?u1]
  have split: "\<exists>applied m rest t1. ?toRun = applied @ m # rest
                 \<and> runMigrations ?db example_options applied Apply Up ?ua = (Inr (), t1)
                 \<and> apply_migration ?db example_options m Up t1
                     = (Inl (Error ''syntax error''), ?u2)"
    using applied failing
    by (intro exI[of _ "[example_B]"] exI[of _ example_C] exI[of _ "[]"] exI[of _ ?u1]) simp
  from inst2[THEN conjunct2, THEN conjunct2, THEN conjunct2, THEN conjunct1] split
  have run2: "runMigrations ?db example_options ?toRun Apply Up ?ua
                = (Inl (Error ''syntax error''), ?u2)"
    by (rule iffD2)
  from inst2[THEN conjunct2, THEN conjunct1] run2 example_options_fields(5,7,9)
  have two: "runner ?db ?fs example_options = (Inl (Error ''syntax error''), ?u2 @ [Close])"
    by simp
  have obtained: "getAction example_B Up = Inr (?aB, example_B)
          \<and> run_body ?db (body ?aB)
               (if strict_equal (down example_B) (up example_B)
                then enableReverseMode new_MigrationBuilder
                else new_MigrationBuilder) ?ua = ((None, ?pB), ?ua)
          \<and> getMarkAsRun example_options example_B ?aB ?ua =
                (Inr (insert_statement example_options ''2_b''), ?uc)"
    by (rule conjI[OF example_B_parts(1) conjI[OF bodyB markB]])
  have keeps: "\<not> calls_noTransaction (body ?aB)"
    by simp
  have returned: "\<not> opt_singleTransaction example_options \<and> \<not> opt_dryRun example_options
          \<and> \<not> calls_noTransaction (body ?aB)
          \<and> apply_migration ?db example_options example_B Up ?ua = (Inr (), ?u1)"
    by (rule conjI[OF example_options_fields(7) conjI[OF example_options_fields(6)
          conjI[OF keeps appliedB]]])
  note accepted = inst2[THEN conjunct2, THEN conjunct2, THEN conjunct2, THEN conjunct2,
      THEN mp, OF obtained, THEN conjunct2, THEN mp, OF returned, THEN conjunct2]
  from accepted have five:
    "query_reply ?db
       (?u0 @ [Log ''> Migrating files:'', Log ''> - 2_b'', Log ''> - 3_c'',
               Log ''### MIGRATION 2_b (UP) ###'',
               sql_log [''BEGIN;'', ''CREATE TABLE tb;'',
                        insert_statement example_options ''2_b'', ''COMMIT;''],
               Query ''BEGIN;'', Query ''CREATE TABLE tb;'',
               Query (insert_statement example_options ''2_b'')])
       ''COMMIT;'' = None"
    by (simp add: butlast_append ann)
  text \<open>Fake mode.\<close>
  let ?dbf = "example_db_rejecting [''1_a''] (insert_statement example_options_fake ''3_c'')"
  let ?f0 = "example_setup_trace ?dbf example_options_fake"
  let ?f2 = "?f0 @ announce ?toRun
             @ [Log ''### MIGRATION 2_b (UP) ###'',
                Query (insert_statement example_options_fake ''2_b''),
                Log ''### MIGRATION 3_c (UP) ###'',
                Query (insert_statement example_options_fake ''3_c'')]"
  have ne3: "create_table_sql ?dbf example_options_fake
               \<noteq> insert_statement example_options_fake ''3_c''"
    by (simp add: example_create_table_sql example_options_fake_fields insert_statement_def)
  have sel3: "select_migrations ?dbf ?fs example_options_fake [] = (Inr ?toRun, ?f0)"
    by (rule example_select[OF example_options_fake_fields(1,2,3) ne3 example_order_kept(1)
          example_pending(1)[OF example_options_fake_fields(9,10,8,11)]])
  have run3: "runMigrations ?dbf example_options_fake ?toRun MarkAsRun
                (opt_direction example_options_fake) (?f0 @ announce ?toRun)
              = (Inl (Error ''syntax error''), ?f2)"
    using example_run_fake[of "[''1_a'']" example_options_fake "?f0 @ announce ?toRun"]
    by (simp add: example_options_fake_fields)
  note inst3 = failure_in_batch_by_mode[OF sel3 nonempty,
      where err = "Error ''syntax error''" and ?t2.0 = ?f2 and ms = "[]" and d = Up
        and t = "[]" and m' = example_E and action = example_no_transaction
        and ?m1.0 = example_E and ta = "[]" and ?pgm1.0 = ?pE and tb = "[]"
        and mark = "insert_statement example_options_fake ''5_e''"
        and tc = "[Log ''### MIGRATION 5_e (UP) ###'']" and td = "[]"]
  from inst3[THEN conjunct2, THEN conjunct2, THEN conjunct1] run3
    example_options_fake_fields(5)
  have three: "runner ?dbf ?fs example_options_fake =
                 (Inl (Error ''syntax error''), ?f2 @ [Close])"
    by simp
  from one four two five three show ?thesis
    by (simp add: ann)
qed

text \<open>
  C7, as stated, fails twice. In single-transaction mode the batch \<open>2_b, 5_e\<close> is run,
  where \<open>5_e\<close> calls \<^verbatim>\<open>noTransaction\<close> and its VACUUM is rejected: the runner issues
  ROLLBACK before it raises the error, but the COMMIT; issued for \<open>5_e\<close> was accepted
  before the failure, so what \<open>2_b\<close> did stays committed and the run is not
  all-or-nothing. In single-transaction mode with fake mode on, the INSERT that marks
  \<open>3_c\<close> is rejected: the error is raised and neither BEGIN nor ROLLBACK is issued.
\<close>

theorem single_transaction_not_all_or_nothing_counterexample:
  "runner (example_db_rejecting [''1_a''] ''VACUUM;'')
     (example_loader [example_A, example_B, example_E]) example_options_single =
     (Inl (Error ''syntax error''),
      example_setup_trace (example_db_rejecting [''1_a''] ''VACUUM;'') example_options_single
      @ [Log ''> Migrating files:'', Log ''> - 2_b'', Log ''> - 5_e'', Query ''BEGIN'',
         Log ''### MIGRATION 2_b (UP) ###'',
         sql_log [''CREATE TABLE tb;'', insert_statement example_options_single ''2_b''],
         Query ''CREATE TABLE tb;'', Query (insert_statement example_options_single ''2_b''),
         Log ''### MIGRATION 5_e (UP) ###'',
         Log ''#> WARNING: Need to break single transaction! <'',
         sql_log [''COMMIT;'', ''VACUUM;'', insert_statement example_options_single ''5_e'',
                  ''BEGIN;''],
         Query ''COMMIT;'', Query ''VACUUM;'',
         Log ''> Rolling back attempted migration ...'', Query ''ROLLBACK'', Close])
   \<and> query_reply (example_db_rejecting [''1_a''] ''VACUUM;'')
       (example_setup_trace (example_db_rejecting [''1_a''] ''VACUUM;'') example_options_single
        @ [Log ''> Migrating files:'', Log ''> - 2_b'', Log ''> - 5_e'', Query ''BEGIN'',
           Log ''### MIGRATION 2_b (UP) ###'',
           sql_log [''CREATE TABLE tb;'', insert_statement example_options_single ''2_b''],
           Query ''CREATE TABLE tb;'', Query (insert_statement example_options_single ''2_b''),
           Log ''### MIGRATION 5_e (UP) ###'',
           Log ''#> WARNING: Need to break single transaction! <'',
           sql_log [''COMMIT;'', ''VACUUM;'', insert_statement example_options_single ''5_e'',
                    ''BEGIN;'']])
       ''COMMIT;'' = None
   \<and> opt_singleTransaction example_options_fake
   \<and> runner (example_db_rejecting [''1_a''] (insert_statement example_options_fake ''3_c''))
       (example_loader [example_A, example_B, example_C]) example_options_fake =
     (Inl (Error ''syntax error''),
      example_setup_trace
        (example_db_rejecting [''1_a''] (insert_statement example_options_fake ''3_c''))
        example_options_fake
      @ [Log ''> Migrating files:'', Log ''> - 2_b'', Log ''> - 3_c'',
         Log ''### MIGRATION 2_b (UP) ###'',
         Query (insert_statement example_options_fake ''2_b''),
         Log ''### MIGRATION 3_c (UP) ###'',
         Query (insert_statement example_options_fake ''3_c''), Close])"
proof -
  text \<open>A migration of the batch calls \<^verbatim>\<open>noTransaction\<close>.\<close>
  let ?db = "example_db_rejecting [''1_a''] ''VACUUM;''"
  let ?fs = "example_loader [example_A, example_B, example_E]"
  let ?toRun = "[example_B, example_E]"
  let ?t0 = "example_setup_trace ?db example_options_single"
  let ?t2 = "?t0 @ announce ?toRun @ [Query ''BEGIN'']
             @ [Log ''### MIGRATION 2_b (UP) ###'',
                sql_log [''CREATE TABLE tb;'', insert_statement example_options_single ''2_b''],
                Query ''CREATE TABLE tb;'',
                Query (insert_statement example_options_single ''2_b''),
                Log ''### MIGRATION 5_e (UP) ###'',
                Log ''#> WARNING: Need to break single transaction! <'',
                sql_log [''COMMIT;'', ''VACUUM;'',
                         insert_statement example_options_single ''5_e'', ''BEGIN;''],
                Query ''COMMIT;'', Query ''VACUUM;'']"
  have nonempty: "?toRun \<noteq> []" by simp
  have ne1: "create_table_sql ?db example_options_single \<noteq> ''VACUUM;''"
    by (simp add: example_create_table_sql example_options_single_fields)
  have sel1: "select_migrations ?db ?fs example_options_single [] = (Inr ?toRun, ?t0)"
    by (rule example_select[OF example_options_single_fields(1,2,3) ne1 example_order_kept(2)
          example_pending(2)[OF example_options_single_fields(9,10,8,11)]])
  have run1: "runMigrations ?db example_options_single ?toRun Apply
                (opt_direction example_options_single) (?t0 @ announce ?toRun @ [Query ''BEGIN''])
              = (Inl (Error ''syntax error''), ?t2)"
    using example_run_broken[of example_options_single "[''1_a'']"
        "?t0 @ announce ?toRun @ [Query ''BEGIN'']"]
    by (simp add: example_options_single_fields)
  have began: "query_reply ?db (?t0 @ announce ?toRun) ''BEGIN'' = None"
    by (simp add: example_rejecting_replies)
  from runner_single_failure[OF sel1 nonempty example_options_single_fields(5,7) began run1]
  have one: "runner ?db ?fs example_options_single =
               (Inl (Error ''syntax error''),
                ?t2 @ [Log ''> Rolling back attempted migration ...'', Query ''ROLLBACK'', Close])"
    by (simp add: example_rejecting_replies)
  have two: "query_reply ?db t ''COMMIT;'' = None" for t
    by (simp add: example_rejecting_replies)
  text \<open>Fake mode.\<close>
  let ?toMark = "[example_B, example_C]"
  let ?dbf = "example_db_rejecting [''1_a''] (insert_statement example_options_fake ''3_c'')"
  let ?ff = "example_loader [example_A, example_B, example_C]"
  let ?f0 = "example_setup_trace ?dbf example_options_fake"
  let ?f2 = "?f0 @ announce ?toMark
             @ [Log ''### MIGRATION 2_b (UP) ###'',
                Query (insert_statement example_options_fake ''2_b''),
                Log ''### MIGRATION 3_c (UP) ###'',
                Query (insert_statement example_options_fake ''3_c'')]"
  have nonempty': "?toMark \<noteq> []" by simp
  have ne3: "create_table_sql ?dbf example_options_fake
               \<noteq> insert_statement example_options_fake ''3_c''"
    by (simp add: example_create_table_sql example_options_fake_fields insert_statement_def)
  have sel3: "select_migrations ?dbf ?ff example_options_fake [] = (Inr ?toMark, ?f0)"
    by (rule example_select[OF example_options_fake_fields(1,2,3) ne3 example_order_kept(1)
          example_pending(1)[OF example_options_fake_fields(9,10,8,11)]])
  have run3: "runMigrations ?dbf example_options_fake ?toMark MarkAsRun
                (opt_direction example_options_fake) (?f0 @ announce ?toMark)
              = (Inl (Error ''syntax error''), ?f2)"
    using example_run_fake[of "[''1_a'']" example_options_fake "?f0 @ announce ?toMark"]
    by (simp add: example_options_fake_fields)
  from runner_fake_failure[OF sel3 nonempty' example_options_fake_fields(5) run3]
  have three: "runner ?dbf ?ff example_options_fake =
                 (Inl (Error ''syntax error''), ?f2 @ [Close])" .
  from one two three example_options_fake_fields(7) show ?thesis
    by (simp add: example_announce)
qed

section \<open>Selecting the migrations of a down run\<close>

lemma slice_last:
  "n \<noteq> 0 \<Longrightarrow> slice (Num (- \<bar>n\<bar>)) None xs = drop (length xs - nat \<bar>n\<bar>) xs"
  by (auto simp: slice_def Let_def nat_diff_distrib' max_def)

lemma slice_minus_zero: "slice (negate (Math_abs (Num 0))) None xs = xs"
  by (simp add: slice_def)

lemma down_selection_by_count:
  assumes "opt_direction options = Down" and "\<not> opt_timestamp options"
      and "opt_count options = Some (Num n)" and "n \<noteq> 0"
  shows "getMigrationsToRun options runNames migrations =
           (let downMigrations = map (resolve migrations) (filter (file_matches options) runNames);
                toRun = rev (drop (length downMigrations - nat \<bar>n\<bar>) downMigrations)
            in if names_only toRun \<noteq> [] then
                 Inl (Error (''Definitions of migrations '' @ join '', '' (names_only toRun)
                             @ '' have been deleted.''))
               else Inr (records_only toRun))"
  using assms by (simp add: getMigrationsToRun_def Let_def slice_last)

lemma down_selection_by_timestamp:
  assumes "opt_direction options = Down" and "opt_timestamp options"
  shows "getMigrationsToRun options runNames migrations =
           Inr (rev (filter (\<lambda>m. greater_equal (timestamp m) (opt_count options))
                  (records_only (map (resolve migrations)
                     (filter (file_matches options) runNames)))))"
proof -
  have sel: "names_only (filter (\<lambda>migration. case migration of
                            Inr m \<Rightarrow> greater_equal (timestamp m) c
                          | Inl _ \<Rightarrow> False) xs) = []
      \<and> records_only (filter (\<lambda>migration. case migration of
                            Inr m \<Rightarrow> greater_equal (timestamp m) c
                          | Inl _ \<Rightarrow> False) xs)
        = filter (\<lambda>m. greater_equal (timestamp m) c) (records_only xs)"
    for c and xs :: "(string + 'a Migration) list"
    by (induction xs rule: names_only.induct) simp_all
  have revs: "names_only (rev xs) = rev (names_only xs)
      \<and> records_only (rev xs) = rev (records_only xs)"
    for xs :: "(string + 'a Migration) list"
  proof (induction xs rule: names_only.induct)
    case 1
    show ?case by simp
  next
    case (2 n xs)
    have "names_only (ys @ [Inl n]) = names_only ys @ [n]
        \<and> records_only (ys @ [Inl n]) = records_only ys"
      for ys :: "(string + 'a Migration) list"
      by (induction ys rule: names_only.induct) simp_all
    with 2 show ?case by simp
  next
    case (3 m xs)
    have "names_only (ys @ [Inr m]) = names_only ys
        \<and> records_only (ys @ [Inr m]) = records_only ys @ [m]"
      for ys :: "(string + 'a Migration) list"
      by (induction ys rule: names_only.induct) simp_all
    with 3 show ?case by simp
  qed
  show ?thesis
    using assms by (simp add: getMigrationsToRun_def Let_def revs sel)
qed

text \<open>
  C3, at the count 0. A down run with \<open>count = 0\<close> and two recorded migrations selects
  both of them, most recent first, where the last 0 recorded entries are none; an up
  run with \<open>count = 0\<close> selects none of the pending ones.
\<close>

theorem down_count_zero_selects_all:
  "getMigrationsToRun (example_options_down\<lparr>opt_count := Some (Num 0)\<rparr>)
     [''1_a'', ''2_b''] [example_A, example_B] = Inr [example_B, example_A]
   \<and> getMigrationsToRun (example_options\<lparr>opt_count := Some (Num 0)\<rparr>)
       [] [example_A, example_B] = Inr []"
  by (simp add: getMigrationsToRun_def slice_def file_matches_def resolve_def
      example_options_down_def example_options_def example_A_def example_B_def
      example_migration_def)

text \<open>
  C9, as the code has it. In a down run with no count and no timestamp filter, the
  selection is \<open>slice(-1)\<close> of the recorded names that pass the file filter: nothing when
  there is none; otherwise the last of them, alone, when a file carries its name, and the
  "deleted" error naming it when none does. Without a file filter these are all the
  recorded names, so the last recorded one is selected. The run is the run with count 1.
\<close>

theorem down_default_selects_last:
  assumes "opt_direction options = Down" and "opt_count options = None"
      and "\<not> opt_timestamp options"
  shows "getMigrationsToRun options runNames migrations =
           (case filter (file_matches options) runNames of
              [] \<Rightarrow> Inr []
            | n # ns \<Rightarrow>
                (case resolve migrations (last (n # ns)) of
                   Inr m \<Rightarrow> Inr [m]
                 | Inl missing \<Rightarrow>
                     Inl (Error (''Definitions of migrations '' @ missing
                                 @ '' have been deleted.''))))
         \<and> (opt_file options = None \<longrightarrow> filter (file_matches options) runNames = runNames)
         \<and> getMigrationsToRun options runNames migrations
             = getMigrationsToRun (options\<lparr>opt_count := Some (Num 1)\<rparr>) runNames migrations"
proof (intro conjI impI)
  let ?names = "filter (file_matches options) runNames"
  have last1: "slice (Num (- 1)) None xs = (if xs = [] then [] else [last xs])"
    for xs :: "(string + 'a Migration) list"
  proof (cases xs rule: rev_cases)
    case Nil
    then show ?thesis by (simp add: slice_def)
  next
    case (snoc ys y)
    then show ?thesis by (simp add: slice_def)
  qed
  show "getMigrationsToRun options runNames migrations =
           (case ?names of
              [] \<Rightarrow> Inr []
            | n # ns \<Rightarrow>
                (case resolve migrations (last (n # ns)) of
                   Inr m \<Rightarrow> Inr [m]
                 | Inl missing \<Rightarrow>
                     Inl (Error (''Definitions of migrations '' @ missing
                                 @ '' have been deleted.''))))"
  proof (cases ?names)
    case Nil
    with assms show ?thesis
      by (simp add: getMigrationsToRun_def Let_def last1)
  next
    case (Cons n ns)
    then have "last (map (resolve migrations) ?names) = resolve migrations (last (n # ns))"
      by (simp add: last_map)
    with Cons assms show ?thesis
      by (cases "resolve migrations (last (n # ns))")
        (simp_all add: getMigrationsToRun_def Let_def last1)
  qed
  show "filter (file_matches options) runNames = runNames" if "opt_file options = None"
    using that by (simp add: file_matches_def)
  have "file_matches (options\<lparr>opt_count := Some (Num 1)\<rparr>) = file_matches options"
    by (simp add: file_matches_def fun_eq_iff)
  with assms
  show "getMigrationsToRun options runNames migrations
          = getMigrationsToRun (options\<lparr>opt_count := Some (Num 1)\<rparr>) runNames migrations"
    by (simp add: getMigrationsToRun_def)
qed

lemma example_options_down_fields:
  "opt_direction example_options_down = Down"
  "opt_count example_options_down = None"
  "\<not> opt_timestamp example_options_down"
  "opt_file example_options_down = None"
  by (simp_all add: example_options_down_def example_options_def)

theorem down_default_selects_last_witness:
  "getMigrationsToRun example_options_down [''1_a'', ''2_b'']
     [example_A, example_B, example_C] = Inr [example_B]"
  using down_default_selects_last[OF example_options_down_fields(1-3),
      of "[''1_a'', ''2_b'']" "[example_A, example_B, example_C]"]
  by (simp add: file_matches_def example_options_down_fields resolve_def
      example_A_def example_B_def example_migration_def)

text \<open>
  C9, as stated, fails: with the file filter \<open>1_a\<close> and the history \<open>[1_a, 2_b]\<close>, a
  down run with no count and no timestamp filter selects \<open>1_a\<close>, which is not the most
  recently recorded migration.
\<close>

theorem down_default_not_most_recent_counterexample:
  "getMigrationsToRun (example_options_down\<lparr>opt_file := Some ''1_a''\<rparr>) [''1_a'', ''2_b'']
     [example_A, example_B, example_C] = Inr [example_A]
   \<and> name example_A \<noteq> last [''1_a'', ''2_b'']"
  by (simp add: getMigrationsToRun_def slice_def file_matches_def resolve_def
      example_options_down_def example_options_def example_A_def example_B_def
      example_migration_def)

section \<open>Dollar quoting\<close>

declare escape_loop.simps [simp del]

lemma index_of_found:
  "0 \<le> i \<Longrightarrow> (0 \<le> index_of s pat i) = sublist pat s"
proof (induction s arbitrary: i)
  case Nil
  then show ?case by simp
next
  case (Cons c cs)
  show ?case
  proof (cases "prefix pat (c # cs)")
    case True
    with Cons.prems show ?thesis
      by (auto simp: sublist_Cons_right)
  next
    case False
    with Cons.IH[of "i + 1"] Cons.prems show ?thesis
      by (simp add: sublist_Cons_right)
  qed
qed

lemma indexOf_found: "(0 \<le> indexOf s pat) = sublist pat s"
  by (simp add: indexOf_def index_of_found)

lemma escape_loop_least:
  "\<exists>N > index. escape_loop val index = dollar_tag N
               \<and> \<not> sublist (dollar_tag N) val
               \<and> (\<forall>k. index < k \<and> k < N \<longrightarrow> sublist (dollar_tag k) val)"
proof (induction val index rule: escape_loop.induct)
  case (1 val index)
  show ?case
  proof (cases "0 \<le> indexOf val (dollar_tag (index + 1))")
    case True
    from "1.IH"[OF refl refl True]
    obtain N where N: "index + 1 < N" "escape_loop val (index + 1) = dollar_tag N"
      "\<not> sublist (dollar_tag N) val"
      "\<forall>k. index + 1 < k \<and> k < N \<longrightarrow> sublist (dollar_tag k) val"
      by blast
    from True have here: "sublist (dollar_tag (index + 1)) val"
      by (simp add: indexOf_found)
    have "\<forall>k. index < k \<and> k < N \<longrightarrow> sublist (dollar_tag k) val"
    proof (intro allI impI)
      fix k assume k: "index < k \<and> k < N"
      show "sublist (dollar_tag k) val"
      proof (cases "k = index + 1")
        case True
        with here show ?thesis by simp
      next
        case False
        with k N(4) show ?thesis by simp
      qed
    qed
    moreover from True N(2) have "escape_loop val index = dollar_tag N"
      by (subst escape_loop.simps) (simp add: Let_def)
    ultimately show ?thesis
      using N(1,3) by (intro exI[of _ N]) simp
  next
    case False
    then have "escape_loop val index = dollar_tag (index + 1)"
      by (subst escape_loop.simps) (simp add: Let_def)
    moreover from False have "\<not> sublist (dollar_tag (index + 1)) val"
      by (simp add: indexOf_found)
    ultimately show ?thesis
      by (intro exI[of _ "index + 1"]) auto
  qed
qed

text \<open>
  For a string, \<^verbatim>\<open>escapeValue\<close> returns the value between two copies of the tag
  \<open>$pgN$\<close>, where \<open>N\<close> is the least number from 1 on whose tag does not occur in the
  value.
\<close>

lemma escapeValue_string_least_tag:
  "\<exists>N \<ge> 1. escapeValue num (VString s) = Text (dollar_tag N @ s @ dollar_tag N)
            \<and> \<not> sublist (dollar_tag N) s
            \<and> (\<forall>k. 1 \<le> k \<and> k < N \<longrightarrow> sublist (dollar_tag k) s)"
proof -
  from escape_loop_least[of 0 s]
  obtain N where "0 < N" "escape_loop s 0 = dollar_tag N" "\<not> sublist (dollar_tag N) s"
    "\<forall>k. 0 < k \<and> k < N \<longrightarrow> sublist (dollar_tag k) s"
    by blast
  then show ?thesis
    by (intro exI[of _ N]) (simp add: Let_def)
qed

text \<open>
  C10, at the value \<open>$pg1\<close>. The tag chosen is \<open>$pg1$\<close>, which does not occur in the
  value; the result is \<open>$pg1$$pg1$pg1$\<close>. In the text that follows the opening tag, the
  tag occurs first at position 0, before the end of the value at position 4: the end of
  the value and the first character of the closing tag form the tag. Read back, the
  literal is the empty string, followed by the stray text \<open>pg1$\<close>.
\<close>

theorem escapeValue_delimiter_overlap:
  "escapeValue num (VString ''$pg1'') = Text ''$pg1$$pg1$pg1$''
   \<and> indexOf ''$pg1'' ''$pg1$'' = - 1
   \<and> indexOf (''$pg1'' @ ''$pg1$'') ''$pg1$'' = 0
   \<and> length ''$pg1'' = 4"
proof -
  have no: "indexOf ''$pg1'' ''$pg1$'' = - 1"
    by (simp add: indexOf_def)
  have "dollar_tag 1 = ''$pg1$''"
    by (simp add: dollar_tag_def)
  with no have "escape_loop ''$pg1'' 0 = ''$pg1$''"
    by (subst escape_loop.simps) (simp add: Let_def)
  then have "escapeValue num (VString ''$pg1'') = Text ''$pg1$$pg1$pg1$''"
    by (simp add: Let_def)
  moreover have "indexOf (''$pg1'' @ ''$pg1$'') ''$pg1$'' = 0"
    by (simp add: indexOf_def)
  ultimately show ?thesis
    using no by simp
qed

end
